theory Spec2Isabelle
  imports Complex_Main "HOL-Library.Dlist" "HOL-Library.DAList"
begin

section \<open>Values, keys and dictionaries\<close>

text \<open>
  The module \<^verbatim>\<open>pydy/system.py\<close> handles sympy atoms and arbitrary Python values without
  ever looking inside them. A symbol is identified by its name; \<^verbatim>\<open>symbols('t')\<close> is the
  symbol named \<^verbatim>\<open>t\<close>. A symbolic expression is opaque.
\<close>

type_synonym symbol = string

type_synonym expr = string

text \<open>
  A dictionary key is a single symbol or a tuple of symbols: \<^verbatim>\<open>isinstance(k, tuple)\<close>
  tells the two apart.
\<close>

datatype key = Single symbol | Tuple "symbol list"

text \<open>
  The Python values the module stores and passes on. Only two questions are ever asked of
  a value: whether it is \<^verbatim>\<open>None\<close>, and whether it has a \<^verbatim>\<open>__call__\<close> attribute. The floats
  the module itself writes are the literals \<^verbatim>\<open>1.0\<close> and \<^verbatim>\<open>0.0\<close>; no arithmetic is done.
\<close>

datatype pyval =
    PyNone
  | PyFloat real
  | PySeq "pyval list"
  | PyCallable nat
  | PyObject nat

fun callable :: "pyval \<Rightarrow> bool" where
  "callable (PyCallable n) = True"
| "callable v = False"

text \<open>
  A Python \<^verbatim>\<open>dict\<close> has pairwise different keys and some iteration order: an association
  list with distinct keys, in iteration order. A Python \<^verbatim>\<open>set\<close> is a list without
  repetitions.
\<close>

type_synonym dict = "(key, pyval) alist"

definition items :: "('k, 'v) alist \<Rightarrow> ('k \<times> 'v) list" where
  "items d = DAList.impl_of d"

definition keys :: "('k, 'v) alist \<Rightarrow> 'k list" where
  "keys d = map fst (items d)"

text \<open>\<^verbatim>\<open>dict(pairs)\<close>: a later pair replaces the value of an earlier one with the same key.\<close>

definition dict_of :: "('k \<times> 'v) list \<Rightarrow> ('k, 'v) alist" where
  "dict_of ps = fold (\<lambda>(k, v) d. DAList.update k v d) ps DAList.empty"

text \<open>\<^verbatim>\<open>k in d\<close> for a dictionary \<^verbatim>\<open>d\<close>.\<close>

definition in_dict :: "'k \<Rightarrow> ('k, 'v) alist \<Rightarrow> bool" where
  "in_dict k d = (DAList.lookup d k \<noteq> None)"

text \<open>
  \<^verbatim>\<open>k in symbols\<close> for a list of symbols: a tuple is never an element of a list of symbols.
\<close>

fun key_in :: "key \<Rightarrow> symbol list \<Rightarrow> bool" where
  "key_in (Single s) symbols = (s \<in> set symbols)"
| "key_in (Tuple ks) symbols = False"

section \<open>Errors\<close>

text \<open>
  Every validation failure of the module is a \<^verbatim>\<open>ValueError\<close>; the messages tell them apart.
  The specification's \<^verbatim>\<open>InvalidSymbolError\<close> is a \<^verbatim>\<open>ValueError\<close> with one of the three
  "is not a ..." messages, its \<^verbatim>\<open>DuplicateSymbolError\<close> the one with "appears more than once".
\<close>

datatype message =
    NotAConstant key
  | NotASpecified symbol
  | AppearsMoreThanOnce symbol
  | NotAState key
  | NotAFunction pyval
  | NotInList symbol

datatype error =
    ValueError message
  | NameError string
  | TypeError string
  | KeyError key
  | Raised string

section \<open>The symbolic model and the external collaborators\<close>

text \<open>
  The \<^verbatim>\<open>KanesMethod\<close> object: the attributes the module reads, and the two classification
  methods, which return sets. A matrix is the list of its entries, so \<^verbatim>\<open>m[:]\<close> is that list.
\<close>

record kanes_method =
  q_attr :: "symbol list"
  u_attr :: "symbol list"
  uaux_attr :: "symbol list"
  qdot_attr :: "symbol list"
  udot_attr :: "symbol list"
  forcing_full :: "expr list"
  mass_matrix_full :: "expr list"
  find_dynamicsymbols :: "expr list \<Rightarrow> symbol dlist \<Rightarrow> symbol dlist"
  find_othersymbols :: "expr list \<Rightarrow> symbol dlist \<Rightarrow> symbol dlist"

text \<open>The attributes of a \<^verbatim>\<open>System\<close> object.\<close>

record system =
  eom_method_attr :: kanes_method
  constants_symbols_attr :: "symbol list"
  specifieds_symbols_attr :: "symbol list"
  constants_attr :: dict
  specifieds_attr :: dict
  ode_solver_attr :: pyval
  initial_conditions_attr :: dict
  evaluate_ode_function_attr :: pyval

text \<open>
  What is handed to the code generator \<^verbatim>\<open>pydy.codegen.code.generate_ode_function\<close> and to
  the integrator.
\<close>

record codegen_request =
  cg_mass_matrix_full :: "expr list"
  cg_forcing_full :: "expr list"
  cg_constants :: "symbol list"
  cg_coordinates :: "symbol list"
  cg_speeds :: "symbol list"
  cg_specified :: "symbol list"
  cg_generator :: string
  cg_kwargs :: "(string \<times> pyval) list"

record solver_request =
  sr_function :: pyval
  sr_initial_conditions :: "pyval list"
  sr_times :: pyval
  sr_constants :: dict
  sr_specified :: dict

text \<open>
  A call that leaves the module. The trace of such calls is threaded through the two
  methods that make them, the latest call last.
\<close>

datatype event = Codegen codegen_request | OdeSolve pyval solver_request

text \<open>
  The code generator and the application of a callable Python value are parameters. Each
  sees the calls made so far, so that it may return a new object on every call, and each
  may raise.
\<close>

record externals =
  codegen :: "event list \<Rightarrow> codegen_request \<Rightarrow> error + pyval"
  apply_callable :: "event list \<Rightarrow> pyval \<Rightarrow> solver_request \<Rightarrow> error + pyval"

section \<open>Properties and validation\<close>

definition eom_method :: "system \<Rightarrow> kanes_method" where
  "eom_method self = eom_method_attr self"

definition coordinates :: "system \<Rightarrow> symbol list" where
  "coordinates self = q_attr (eom_method self)"

definition speeds :: "system \<Rightarrow> symbol list" where
  "speeds self = u_attr (eom_method self)"

definition states :: "system \<Rightarrow> symbol list" where
  "states self = coordinates self @ speeds self"

definition constants :: "system \<Rightarrow> dict" where
  "constants self = constants_attr self"

definition constants_symbols :: "system \<Rightarrow> symbol list" where
  "constants_symbols self = constants_symbols_attr self"

text \<open>The loop of \<^verbatim>\<open>_check_constants\<close> over \<^verbatim>\<open>constants.keys()\<close>.\<close>

fun check_constants_loop :: "symbol list \<Rightarrow> key list \<Rightarrow> error + unit" where
  "check_constants_loop symbols [] = Inr ()"
| "check_constants_loop symbols (k # ks) =
     (if \<not> key_in k symbols then Inl (ValueError (NotAConstant k))
      else check_constants_loop symbols ks)"

definition check_constants :: "system \<Rightarrow> dict \<Rightarrow> error + unit" where
  "check_constants self cs = check_constants_loop (constants_symbols self) (keys cs)"

text \<open>
  A method that assigns returns its outcome together with the object as it is afterwards;
  when the outcome is an error, that is the object as the exception leaves it. (The
  debugging \<^verbatim>\<open>print\<close> statements write to standard output, which is not part of the object.)
\<close>

definition constants_setter :: "system \<Rightarrow> dict \<Rightarrow> (error + unit) \<times> system" where
  "constants_setter self cs =
     (case check_constants self cs of
        Inl e \<Rightarrow> (Inl e, self)
      | Inr _ \<Rightarrow> (Inr (), self\<lparr>constants_attr := cs\<rparr>))"

definition constants_padded_with_defaults :: "system \<Rightarrow> dict" where
  "constants_padded_with_defaults self =
     dict_of (items (constants self) @
       items (dict_of [(Single s, PyFloat 1). s \<leftarrow> constants_symbols self,
                        \<not> in_dict (Single s) (constants self)]))"

definition specifieds :: "system \<Rightarrow> dict" where
  "specifieds self = specifieds_attr self"

definition specifieds_symbols :: "system \<Rightarrow> symbol list" where
  "specifieds_symbols self = specifieds_symbols_attr self"

definition assert_is_specified_symbol :: "symbol \<Rightarrow> symbol list \<Rightarrow> error + unit" where
  "assert_is_specified_symbol symbol all_symbols =
     (if symbol \<notin> set all_symbols then Inl (ValueError (NotASpecified symbol)) else Inr ())"

definition assert_symbol_appears_multiple_times :: "symbol \<Rightarrow> symbol list \<Rightarrow> error + unit" where
  "assert_symbol_appears_multiple_times symbol symbols_so_far =
     (if symbol \<in> set symbols_so_far then Inl (ValueError (AppearsMoreThanOnce symbol)) else Inr ())"

text \<open>The first inner loop of \<^verbatim>\<open>_check_specifieds\<close>, over the elements of a tuple key.\<close>

fun assert_specified_loop :: "symbol list \<Rightarrow> symbol list \<Rightarrow> error + unit" where
  "assert_specified_loop [] symbols = Inr ()"
| "assert_specified_loop (ki # k) symbols =
     (case assert_is_specified_symbol ki symbols of
        Inl e \<Rightarrow> Inl e
      | Inr _ \<Rightarrow> assert_specified_loop k symbols)"

text \<open>The second inner loop: it returns \<^verbatim>\<open>symbols_so_far\<close> as the appends leave it.\<close>

fun assert_once_loop :: "symbol list \<Rightarrow> symbol list \<Rightarrow> error + symbol list" where
  "assert_once_loop [] symbols_so_far = Inr symbols_so_far"
| "assert_once_loop (ki # k) symbols_so_far =
     (case assert_symbol_appears_multiple_times ki symbols_so_far of
        Inl e \<Rightarrow> Inl e
      | Inr _ \<Rightarrow> assert_once_loop k (symbols_so_far @ [ki]))"

text \<open>The body of the outer loop for one key, and the outer loop over \<^verbatim>\<open>specifieds.items()\<close>.\<close>

fun check_specifieds_key :: "symbol list \<Rightarrow> key \<Rightarrow> symbol list \<Rightarrow> error + symbol list" where
  "check_specifieds_key symbols (Tuple k) symbols_so_far =
     (case assert_specified_loop k symbols of
        Inl e \<Rightarrow> Inl e
      | Inr _ \<Rightarrow> assert_once_loop k symbols_so_far)"
| "check_specifieds_key symbols (Single k) symbols_so_far =
     (case assert_is_specified_symbol k symbols of
        Inl e \<Rightarrow> Inl e
      | Inr _ \<Rightarrow>
         (case assert_symbol_appears_multiple_times k symbols_so_far of
            Inl e \<Rightarrow> Inl e
          | Inr _ \<Rightarrow> Inr (symbols_so_far @ [k])))"

fun check_specifieds_loop ::
  "symbol list \<Rightarrow> (key \<times> pyval) list \<Rightarrow> symbol list \<Rightarrow> error + unit" where
  "check_specifieds_loop symbols [] symbols_so_far = Inr ()"
| "check_specifieds_loop symbols ((k, v) # kvs) symbols_so_far =
     (case check_specifieds_key symbols k symbols_so_far of
        Inl e \<Rightarrow> Inl e
      | Inr so_far \<Rightarrow> check_specifieds_loop symbols kvs so_far)"

definition check_specifieds :: "system \<Rightarrow> dict \<Rightarrow> error + unit" where
  "check_specifieds self sp = check_specifieds_loop (specifieds_symbols self) (items sp) []"

definition specifieds_setter :: "system \<Rightarrow> dict \<Rightarrow> (error + unit) \<times> system" where
  "specifieds_setter self sp =
     (case check_specifieds self sp of
        Inl e \<Rightarrow> (Inl e, self)
      | Inr _ \<Rightarrow> (Inr (), self\<lparr>specifieds_attr := sp\<rparr>))"

text \<open>\<^verbatim>\<open>_symbol_is_in_specifieds_dict\<close>: the loop over the keys, with its early return.\<close>

fun symbol_in_key :: "symbol \<Rightarrow> key \<Rightarrow> bool" where
  "symbol_in_key symbol (Single k) = (symbol = k)"
| "symbol_in_key symbol (Tuple k) = (symbol \<in> set k)"

fun symbol_is_in_keys :: "symbol \<Rightarrow> key list \<Rightarrow> bool" where
  "symbol_is_in_keys symbol [] = False"
| "symbol_is_in_keys symbol (k # ks) =
     (if symbol_in_key symbol k then True else symbol_is_in_keys symbol ks)"

definition symbol_is_in_specifieds_dict :: "symbol \<Rightarrow> dict \<Rightarrow> bool" where
  "symbol_is_in_specifieds_dict symbol specifieds_dict =
     symbol_is_in_keys symbol (keys specifieds_dict)"

definition specifieds_padded_with_defaults :: "system \<Rightarrow> dict" where
  "specifieds_padded_with_defaults self =
     dict_of (items (specifieds self) @
       items (dict_of [(Single s, PyFloat 0). s \<leftarrow> specifieds_symbols self,
                        \<not> symbol_is_in_specifieds_dict s (specifieds self)]))"

definition ode_solver :: "system \<Rightarrow> pyval" where
  "ode_solver self = ode_solver_attr self"

definition ode_solver_setter :: "system \<Rightarrow> pyval \<Rightarrow> (error + unit) \<times> system" where
  "ode_solver_setter self solver =
     (if \<not> callable solver then (Inl (ValueError (NotAFunction solver)), self)
      else (Inr (), self\<lparr>ode_solver_attr := solver\<rparr>))"

definition initial_conditions :: "system \<Rightarrow> dict" where
  "initial_conditions self = initial_conditions_attr self"

text \<open>The loop of \<^verbatim>\<open>_check_initial_conditions\<close> over \<^verbatim>\<open>initial_conditions.keys()\<close>.\<close>

fun check_initial_conditions_loop :: "symbol list \<Rightarrow> key list \<Rightarrow> error + unit" where
  "check_initial_conditions_loop symbols [] = Inr ()"
| "check_initial_conditions_loop symbols (k # ks) =
     (if \<not> key_in k symbols then Inl (ValueError (NotAState k))
      else check_initial_conditions_loop symbols ks)"

definition check_initial_conditions :: "system \<Rightarrow> dict \<Rightarrow> error + unit" where
  "check_initial_conditions self ic = check_initial_conditions_loop (states self) (keys ic)"

definition initial_conditions_setter :: "system \<Rightarrow> dict \<Rightarrow> (error + unit) \<times> system" where
  "initial_conditions_setter self ic =
     (case check_initial_conditions self ic of
        Inl e \<Rightarrow> (Inl e, self)
      | Inr _ \<Rightarrow> (Inr (), self\<lparr>initial_conditions_attr := ic\<rparr>))"

definition initial_conditions_padded_with_defaults :: "system \<Rightarrow> dict" where
  "initial_conditions_padded_with_defaults self =
     dict_of (items (initial_conditions self) @
       items (dict_of [(Single s, PyFloat 0). s \<leftarrow> states self,
                        \<not> in_dict (Single s) (initial_conditions self)]))"

definition evaluate_ode_function :: "system \<Rightarrow> pyval" where
  "evaluate_ode_function self = evaluate_ode_function_attr self"

section \<open>Generating the derivative function and integrating\<close>

text \<open>
  \<^verbatim>\<open>generate_ode_function\<close>: the keyword \<^verbatim>\<open>specified\<close> is passed explicitly, so a second
  one among \<^verbatim>\<open>kwargs\<close> makes the call itself a \<^verbatim>\<open>TypeError\<close>. Otherwise the code generator
  is called, whatever is cached, and what it returns is stored and returned.
\<close>

definition codegen_arguments ::
  "system \<Rightarrow> string \<Rightarrow> (string \<times> pyval) list \<Rightarrow> codegen_request" where
  "codegen_arguments self generator kwargs =
     \<lparr>cg_mass_matrix_full = mass_matrix_full (eom_method self),
      cg_forcing_full = forcing_full (eom_method self),
      cg_constants = constants_symbols self,
      cg_coordinates = coordinates self,
      cg_speeds = speeds self,
      cg_specified = specifieds_symbols self,
      cg_generator = generator,
      cg_kwargs = kwargs\<rparr>"

definition generate_ode_function ::
  "externals \<Rightarrow> system \<Rightarrow> event list \<Rightarrow> string \<Rightarrow> (string \<times> pyval) list
     \<Rightarrow> (error + pyval) \<times> system \<times> event list" where
  "generate_ode_function ext self tr generator kwargs =
     (if ''specified'' \<in> set (map fst kwargs)
      then (Inl (TypeError ''got multiple values for keyword argument''), self, tr)
      else
        let req = codegen_arguments self generator kwargs
        in (case codegen ext tr req of
              Inl e \<Rightarrow> (Inl e, self, tr @ [Codegen req])
            | Inr f \<Rightarrow>
                let self' = self\<lparr>evaluate_ode_function_attr := f\<rparr>
                in (Inr (evaluate_ode_function self'), self', tr @ [Codegen req])))"

text \<open>\<^verbatim>\<open>d[k]\<close>, and the comprehension \<^verbatim>\<open>[init_conds_dict[k] for k in self.states]\<close>.\<close>

definition getitem :: "dict \<Rightarrow> key \<Rightarrow> error + pyval" where
  "getitem d k = (case DAList.lookup d k of None \<Rightarrow> Inl (KeyError k) | Some v \<Rightarrow> Inr v)"

fun getitems :: "dict \<Rightarrow> symbol list \<Rightarrow> error + pyval list" where
  "getitems d [] = Inr []"
| "getitems d (k # ks) =
     (case getitem d (Single k) of
        Inl e \<Rightarrow> Inl e
      | Inr v \<Rightarrow> (case getitems d ks of Inl e \<Rightarrow> Inl e | Inr vs \<Rightarrow> Inr (v # vs)))"

text \<open>Calling the stored solver: a value that is not callable cannot be applied.\<close>

definition call_ode_solver ::
  "externals \<Rightarrow> event list \<Rightarrow> pyval \<Rightarrow> solver_request \<Rightarrow> (error + pyval) \<times> event list" where
  "call_ode_solver ext tr solver req =
     (if callable solver then (apply_callable ext tr solver req, tr @ [OdeSolve solver req])
      else (Inl (TypeError ''object is not callable''), tr))"

text \<open>The arguments of the call of the solver, in the order they are evaluated.\<close>

definition solver_arguments :: "system \<Rightarrow> pyval list \<Rightarrow> pyval \<Rightarrow> solver_request" where
  "solver_arguments self initial_conditions_in_proper_order times' =
     \<lparr>sr_function = evaluate_ode_function self,
      sr_initial_conditions = initial_conditions_in_proper_order,
      sr_times = times',
      sr_constants = constants_padded_with_defaults self,
      sr_specified = specifieds_padded_with_defaults self\<rparr>"

definition integrate ::
  "externals \<Rightarrow> system \<Rightarrow> event list \<Rightarrow> pyval \<Rightarrow> (error + pyval) \<times> system \<times> event list" where
  "integrate ext self tr times' =
     (case check_constants self (constants self) of
        Inl e \<Rightarrow> (Inl e, self, tr)
      | Inr _ \<Rightarrow>
     (case check_specifieds self (specifieds self) of
        Inl e \<Rightarrow> (Inl e, self, tr)
      | Inr _ \<Rightarrow>
     (case check_initial_conditions self (initial_conditions self) of
        Inl e \<Rightarrow> (Inl e, self, tr)
      | Inr _ \<Rightarrow>
     (case (if evaluate_ode_function self = PyNone
            then generate_ode_function ext self tr ''lambdify'' []
            else (Inr (evaluate_ode_function self), self, tr)) of
        (Inl e, self', tr') \<Rightarrow> (Inl e, self', tr')
      | (Inr _, self', tr') \<Rightarrow>
          let init_conds_dict = initial_conditions_padded_with_defaults self'
          in (case getitems init_conds_dict (states self') of
                Inl e \<Rightarrow> (Inl e, self', tr')
              | Inr initial_conditions_in_proper_order \<Rightarrow>
                  let (r, tr'') =
                        call_ode_solver ext tr' (ode_solver self')
                          (solver_arguments self' initial_conditions_in_proper_order times')
                  in (r, self', tr''))))))"

section \<open>The symbol sets of the model, and the constructor\<close>

text \<open>
  \<^verbatim>\<open>[diff(i, t) for i in uaux]\<close>: the module binds neither \<^verbatim>\<open>diff\<close> nor \<^verbatim>\<open>t\<close> (it imports
  \<^verbatim>\<open>generate_ode_function\<close>, \<^verbatim>\<open>odeint\<close> and \<^verbatim>\<open>symbols\<close> only), so the first element of
  \<^verbatim>\<open>uaux\<close> raises a \<^verbatim>\<open>NameError\<close>; over an empty list the body is never evaluated.
\<close>

fun uauxdot_of :: "symbol list \<Rightarrow> error + symbol list" where
  "uauxdot_of [] = Inr []"
| "uauxdot_of (i # uaux) = Inl (NameError ''diff'')"

definition Kane_inlist_insyms :: "system \<Rightarrow> error + (expr list \<times> symbol dlist)" where
  "Kane_inlist_insyms self =
     (let uaux = uaux_attr (eom_method self)
      in (case uauxdot_of uaux of
            Inl e \<Rightarrow> Inl e
          | Inr uauxdot \<Rightarrow>
              let insyms = Dlist (q_attr (eom_method self) @ qdot_attr (eom_method self) @
                                  u_attr (eom_method self) @ udot_attr (eom_method self) @
                                  uaux @ uauxdot);
                  inlist = forcing_full (eom_method self) @ mass_matrix_full (eom_method self)
              in Inr (inlist, insyms)))"

definition Kane_undefined_dynamicsymbols :: "system \<Rightarrow> error + symbol list" where
  "Kane_undefined_dynamicsymbols self =
     (case Kane_inlist_insyms self of
        Inl e \<Rightarrow> Inl e
      | Inr (inlist, insyms) \<Rightarrow>
          Inr (list_of_dlist (find_dynamicsymbols (eom_method self) inlist insyms)))"

text \<open>\<^verbatim>\<open>xs.remove(x)\<close> deletes the first \<^verbatim>\<open>x\<close> and raises when there is none.\<close>

definition list_remove :: "symbol list \<Rightarrow> symbol \<Rightarrow> error + symbol list" where
  "list_remove xs x =
     (if x \<in> set xs then Inr (remove1 x xs) else Inl (ValueError (NotInList x)))"

definition Kane_constant_symbols :: "system \<Rightarrow> error + symbol list" where
  "Kane_constant_symbols self =
     (case Kane_inlist_insyms self of
        Inl e \<Rightarrow> Inl e
      | Inr (inlist, insyms) \<Rightarrow>
          let constants = list_of_dlist (find_othersymbols (eom_method self) inlist insyms)
          in list_remove constants ''t'')"

text \<open>
  The constructor assigns the attributes one after the other. An attribute not yet assigned
  holds a placeholder here: no step reads an attribute before it is assigned, and when a
  step raises, nobody gets hold of the object.
\<close>

definition init ::
  "kanes_method \<Rightarrow> dict \<Rightarrow> dict \<Rightarrow> pyval \<Rightarrow> dict \<Rightarrow> error + system" where
  "init eom constants0 specifieds0 ode_solver0 initial_conditions0 =
     (let self0 = \<lparr>eom_method_attr = eom,
                   constants_symbols_attr = [],
                   specifieds_symbols_attr = [],
                   constants_attr = DAList.empty,
                   specifieds_attr = DAList.empty,
                   ode_solver_attr = PyNone,
                   initial_conditions_attr = DAList.empty,
                   evaluate_ode_function_attr = PyNone\<rparr>
      in (case Kane_constant_symbols self0 of
            Inl e \<Rightarrow> Inl e
          | Inr cs \<Rightarrow>
         (let self1 = self0\<lparr>constants_symbols_attr := cs\<rparr>
          in (case Kane_undefined_dynamicsymbols self1 of
                Inl e \<Rightarrow> Inl e
              | Inr ss \<Rightarrow>
             (let self2 = self1\<lparr>specifieds_symbols_attr := ss\<rparr>
              in (case constants_setter self2 constants0 of
                    (Inl e, _) \<Rightarrow> Inl e
                  | (Inr _, self3) \<Rightarrow>
                 (case specifieds_setter self3 specifieds0 of
                    (Inl e, _) \<Rightarrow> Inl e
                  | (Inr _, self4) \<Rightarrow>
                 (case ode_solver_setter self4 ode_solver0 of
                    (Inl e, _) \<Rightarrow> Inl e
                  | (Inr _, self5) \<Rightarrow>
                 (case initial_conditions_setter self5 initial_conditions0 of
                    (Inl e, _) \<Rightarrow> Inl e
                  | (Inr _, self6) \<Rightarrow>
                      Inr (self6\<lparr>evaluate_ode_function_attr := PyNone\<rparr>))))))))))"

section \<open>What the specification calls valid\<close>

text \<open>
  The specification's invariants of the three mappings, in its own words: every key of the
  constants mapping is in the constant-symbol set; the symbols referenced across all keys
  of the specifieds mapping, tuples flattened, are specified symbols and have no
  duplicates; every key of the initial-conditions mapping is a state symbol.
\<close>

fun key_symbols :: "key \<Rightarrow> symbol list" where
  "key_symbols (Single s) = [s]"
| "key_symbols (Tuple ks) = ks"

definition referenced_symbols :: "dict \<Rightarrow> symbol list" where
  "referenced_symbols d = concat (map key_symbols (keys d))"

definition valid_constants :: "system \<Rightarrow> bool" where
  "valid_constants self =
     (\<forall>k \<in> set (keys (constants self)). key_in k (constants_symbols self))"

definition valid_specifieds :: "system \<Rightarrow> bool" where
  "valid_specifieds self =
     (set (referenced_symbols (specifieds self)) \<subseteq> set (specifieds_symbols self) \<and>
      distinct (referenced_symbols (specifieds self)))"

definition valid_initial_conditions :: "system \<Rightarrow> bool" where
  "valid_initial_conditions self =
     (\<forall>k \<in> set (keys (initial_conditions self)). key_in k (states self))"



section \<open>A mass-spring-damper with an applied force\<close>

text \<open>
  One coordinate \<^verbatim>\<open>x\<close>, one speed \<^verbatim>\<open>v\<close>, constants \<^verbatim>\<open>m\<close>, \<^verbatim>\<open>k\<close>, \<^verbatim>\<open>c\<close>, a specified force
  \<^verbatim>\<open>F\<close> and a second specified input \<^verbatim>\<open>G\<close>; no auxiliary speeds.
\<close>

definition oscillator :: kanes_method where
  "oscillator =
     \<lparr>q_attr = [''x''], u_attr = [''v''], uaux_attr = [],
      qdot_attr = [''xd''], udot_attr = [''vd''],
      forcing_full = [''v'', ''F + G - k*x - c*v''],
      mass_matrix_full = [''1'', ''0'', ''0'', ''m''],
      find_dynamicsymbols = (\<lambda>inlist insyms. Dlist [''F'', ''G'']),
      find_othersymbols = (\<lambda>inlist insyms. Dlist [''m'', ''k'', ''c'', ''t''])\<rparr>"

definition oscillator_system :: system where
  "oscillator_system =
     \<lparr>eom_method_attr = oscillator,
      constants_symbols_attr = [''m'', ''k'', ''c''],
      specifieds_symbols_attr = [''F'', ''G''],
      constants_attr = dict_of [(Single ''m'', PyFloat 2)],
      specifieds_attr = dict_of [(Single ''F'', PyCallable 7)],
      ode_solver_attr = PyCallable 0,
      initial_conditions_attr = dict_of [(Single ''v'', PyFloat 3)],
      evaluate_ode_function_attr = PyNone\<rparr>"

text \<open>A code generator that returns a new function on every call, and a solver.\<close>

definition counting_externals :: externals where
  "counting_externals =
     \<lparr>codegen = (\<lambda>tr req. Inr (PyCallable (Suc (length tr)))),
      apply_callable = (\<lambda>tr solver req. Inr (PyObject (length tr)))\<rparr>"

text \<open>The same model with an auxiliary speed, and one whose expressions hold no \<^verbatim>\<open>t\<close>.\<close>

definition oscillator_aux :: kanes_method where
  "oscillator_aux =
     oscillator\<lparr>uaux_attr := [''ua''],
                find_othersymbols := (\<lambda>inlist insyms. Dlist [''m'', ''k'', ''c''])\<rparr>"

definition oscillator_timeless :: kanes_method where
  "oscillator_timeless =
     oscillator\<lparr>find_othersymbols := (\<lambda>inlist insyms. Dlist [''m'', ''k'', ''c''])\<rparr>"

text \<open>
  Specifieds mappings for that model: one in which \<^verbatim>\<open>G\<close> is referenced by two keys, and
  two, in either iteration order, in which \<^verbatim>\<open>F\<close> is referenced by two keys and \<^verbatim>\<open>Z\<close> is
  not a specified symbol.
\<close>

definition shared_force :: dict where
  "shared_force =
     dict_of [(Tuple [''F'', ''G''], PySeq [PyFloat 1, PyFloat 2]), (Single ''G'', PyFloat 4)]"

definition shared_and_unknown :: dict where
  "shared_and_unknown =
     dict_of [(Tuple [''F'', ''Z''], PySeq [PyFloat 1, PyFloat 2]), (Single ''F'', PyFloat 4)]"

definition unknown_and_shared :: dict where
  "unknown_and_shared =
     dict_of [(Single ''F'', PyFloat 4), (Tuple [''F'', ''Z''], PySeq [PyFloat 1, PyFloat 2])]"

text \<open>
  The system after a caller has added the key \<^verbatim>\<open>y\<close> to the stored initial conditions in
  place, without going through the setter.
\<close>

definition oscillator_mutated :: system where
  "oscillator_mutated =
     oscillator_system\<lparr>initial_conditions_attr :=
       dict_of [(Single ''v'', PyFloat 3), (Single ''y'', PyFloat 1)]\<rparr>"




section \<open>Facts about dictionaries\<close>

lemma lookup_items: "DAList.lookup d k = map_of (items d) k"
  by (simp add: items_def DAList.lookup.rep_eq)

lemma distinct_keys: "distinct (keys d)"
  by (simp add: keys_def items_def)

lemma lookup_fold_update:
  "DAList.lookup (fold (\<lambda>(k, v) d. DAList.update k v d) ps d) k =
     (case map_of (rev ps) k of None \<Rightarrow> DAList.lookup d k | Some v \<Rightarrow> Some v)"
  by (induction ps arbitrary: d) (auto simp: DAList.lookup_update split: option.splits)

lemma lookup_dict_of: "DAList.lookup (dict_of ps) k = map_of (rev ps) k"
  by (simp add: dict_of_def lookup_fold_update split: option.splits)

lemma set_keys_dom: "set (keys d) = dom (DAList.lookup d)"
  by (simp add: keys_def lookup_items[abs_def] dom_map_of_conv_image_fst)

lemma set_keys_dict_of: "set (keys (dict_of ps)) = fst ` set ps"
  by (simp add: set_keys_dom lookup_dict_of[abs_def] dom_map_of_conv_image_fst)

lemma in_dict_keys: "in_dict k d \<longleftrightarrow> k \<in> set (keys d)"
  by (auto simp: in_dict_def set_keys_dom)

lemma map_of_rev_items: "map_of (rev (items d)) = map_of (items d)"
proof -
  have "distinct (map fst (items d))" by (simp add: items_def)
  then show ?thesis by (simp add: map_of_inject_set distinct_map)
qed

text \<open>The equations that evaluate a dictionary given by its pairs.\<close>

lemmas dict_eval =
  keys_def items_def dict_of_def in_dict_def DAList.update.rep_eq DAList.empty.rep_eq
  DAList.lookup.rep_eq

section \<open>The constants setter\<close>

lemma check_constants_loop_Inr:
  "check_constants_loop symbols ks = Inr u \<longleftrightarrow> (\<forall>k\<in>set ks. key_in k symbols)"
  by (induction ks) auto

lemma check_constants_loop_Inl:
  "check_constants_loop symbols ks = Inl e \<Longrightarrow>
     \<exists>k\<in>set ks. \<not> key_in k symbols \<and> e = ValueError (NotAConstant k)"
  by (induction ks) (auto split: if_splits)

text \<open>
  C5. When the mapping handed to the constants setter has a key outside the constant-symbol
  set, the setter raises the "is not a constant" \<^verbatim>\<open>ValueError\<close> (the specification's
  \<^verbatim>\<open>InvalidSymbolError\<close>) for such a key, and the object is afterwards exactly as it was
  before: the stored constants mapping, like every other attribute, is unchanged.
\<close>

theorem constants_setter_invalid:
  assumes "\<exists>k\<in>set (keys cs). \<not> key_in k (constants_symbols self)"
  shows "\<exists>k\<in>set (keys cs). \<not> key_in k (constants_symbols self) \<and>
           constants_setter self cs = (Inl (ValueError (NotAConstant k)), self)"
proof (cases "check_constants self cs")
  case (Inl e)
  then show ?thesis
    using check_constants_loop_Inl[of "constants_symbols self" "keys cs" e]
    by (auto simp: constants_setter_def check_constants_def)
next
  case (Inr u)
  then show ?thesis using assms
    by (simp add: check_constants_def check_constants_loop_Inr)
qed

theorem constants_setter_invalid_witness:
  "(\<exists>k\<in>set (keys (dict_of [(Single ''m'', PyFloat 5), (Single ''g'', PyFloat 9)])).
      \<not> key_in k (constants_symbols oscillator_system)) \<and>
   constants_setter oscillator_system
       (dict_of [(Single ''m'', PyFloat 5), (Single ''g'', PyFloat 9)])
     = (Inl (ValueError (NotAConstant (Single ''g''))), oscillator_system) \<and>
   constants (snd (constants_setter oscillator_system
       (dict_of [(Single ''m'', PyFloat 5), (Single ''g'', PyFloat 9)])))
     = dict_of [(Single ''m'', PyFloat 2)]"
proof -
  let ?cs = "dict_of [(Single ''m'', PyFloat 5), (Single ''g'', PyFloat 9)]"
  have k: "keys ?cs = [Single ''m'', Single ''g'']" by (simp add: dict_eval)
  have h: "\<exists>k\<in>set (keys ?cs). \<not> key_in k (constants_symbols oscillator_system)"
    by (simp add: k constants_symbols_def oscillator_system_def)
  from constants_setter_invalid[OF h] show ?thesis
    by (auto simp add: k constants_symbols_def constants_def oscillator_system_def)
qed

section \<open>What the validations decide\<close>

lemma assert_specified_loop_Inr:
  "assert_specified_loop k symbols = Inr u \<longleftrightarrow> set k \<subseteq> set symbols"
  by (induction k) (auto simp: assert_is_specified_symbol_def)

lemma assert_specified_loop_Inl:
  "assert_specified_loop k symbols = Inl e \<Longrightarrow>
     \<exists>s\<in>set k. s \<notin> set symbols \<and> e = ValueError (NotASpecified s)"
  by (induction k) (auto simp: assert_is_specified_symbol_def split: if_splits)

lemma assert_once_loop_Inr:
  "assert_once_loop k so_far = Inr r \<longleftrightarrow>
     (distinct k \<and> set k \<inter> set so_far = {} \<and> r = so_far @ k)"
  by (induction k arbitrary: so_far)
     (auto simp: assert_symbol_appears_multiple_times_def)

lemma assert_once_loop_Inl:
  "assert_once_loop k so_far = Inl e \<Longrightarrow>
     \<exists>s\<in>set k. e = ValueError (AppearsMoreThanOnce s)"
  by (induction k arbitrary: so_far)
     (auto simp: assert_symbol_appears_multiple_times_def split: if_splits)

lemma assert_specified_loop_ok:
  "set k \<subseteq> set symbols \<Longrightarrow> assert_specified_loop k symbols = Inr ()"
  by (induction k) (auto simp: assert_is_specified_symbol_def)

lemma assert_specified_loop_bad:
  "\<not> set k \<subseteq> set symbols \<Longrightarrow>
     \<exists>s\<in>set k. s \<notin> set symbols \<and>
        assert_specified_loop k symbols = Inl (ValueError (NotASpecified s))"
  by (induction k) (auto simp: assert_is_specified_symbol_def)

lemma check_specifieds_key_Inr:
  "check_specifieds_key symbols k so_far = Inr r \<longleftrightarrow>
     (set (key_symbols k) \<subseteq> set symbols \<and> distinct (key_symbols k) \<and>
      set (key_symbols k) \<inter> set so_far = {} \<and> r = so_far @ key_symbols k)"
proof (cases k)
  case (Single s)
  then show ?thesis
    by (auto simp: assert_is_specified_symbol_def assert_symbol_appears_multiple_times_def)
next
  case (Tuple ks)
  show ?thesis
  proof (cases "set ks \<subseteq> set symbols")
    case True
    then have "check_specifieds_key symbols k so_far = assert_once_loop ks so_far"
      by (simp add: Tuple assert_specified_loop_ok)
    then show ?thesis using True by (simp add: Tuple assert_once_loop_Inr)
  next
    case False
    from assert_specified_loop_bad[OF this] obtain s where
      "assert_specified_loop ks symbols = Inl (ValueError (NotASpecified s))" by blast
    then have "check_specifieds_key symbols k so_far = Inl (ValueError (NotASpecified s))"
      by (simp add: Tuple)
    then show ?thesis using False by (simp add: Tuple)
  qed
qed

lemma check_specifieds_key_Inl:
  "check_specifieds_key symbols k so_far = Inl e \<Longrightarrow>
     (\<exists>s\<in>set (key_symbols k). s \<notin> set symbols \<and> e = ValueError (NotASpecified s)) \<or>
     (set (key_symbols k) \<subseteq> set symbols \<and>
      (\<exists>s\<in>set (key_symbols k). e = ValueError (AppearsMoreThanOnce s)))"
proof (cases k)
  case (Single s)
  assume "check_specifieds_key symbols k so_far = Inl e"
  with Single show ?thesis
    by (auto simp: assert_is_specified_symbol_def assert_symbol_appears_multiple_times_def
             split: if_splits)
next
  case (Tuple ks)
  assume a: "check_specifieds_key symbols k so_far = Inl e"
  show ?thesis
  proof (cases "assert_specified_loop ks symbols")
    case (Inl e')
    with a Tuple show ?thesis using assert_specified_loop_Inl[of ks symbols e'] by auto
  next
    case (Inr u)
    with a Tuple show ?thesis
      using assert_once_loop_Inl[of ks so_far e] assert_specified_loop_Inr[of ks symbols u]
      by auto
  qed
qed

lemma check_specifieds_loop_Inr:
  "check_specifieds_loop symbols kvs so_far = Inr u \<longleftrightarrow>
     (set (concat (map (\<lambda>p. key_symbols (fst p)) kvs)) \<subseteq> set symbols \<and>
      distinct (concat (map (\<lambda>p. key_symbols (fst p)) kvs)) \<and>
      set (concat (map (\<lambda>p. key_symbols (fst p)) kvs)) \<inter> set so_far = {})"
proof (induction kvs arbitrary: so_far)
  case Nil
  then show ?case by simp
next
  case (Cons kv kvs)
  obtain k v where kv: "kv = (k, v)" by (cases kv)
  show ?case
  proof (cases "check_specifieds_key symbols k so_far")
    case (Inl e)
    then have "\<not> (set (key_symbols k) \<subseteq> set symbols \<and> distinct (key_symbols k) \<and>
      set (key_symbols k) \<inter> set so_far = {})"
      using check_specifieds_key_Inr[of symbols k so_far "so_far @ key_symbols k"] by auto
    with Inl kv show ?thesis by auto
  next
    case (Inr r)
    then have r: "set (key_symbols k) \<subseteq> set symbols" "distinct (key_symbols k)"
      "set (key_symbols k) \<inter> set so_far = {}" "r = so_far @ key_symbols k"
      by (simp_all add: check_specifieds_key_Inr)
    from Inr kv have "check_specifieds_loop symbols (kv # kvs) so_far = Inr u \<longleftrightarrow>
        check_specifieds_loop symbols kvs r = Inr u" by simp
    also have "\<dots> \<longleftrightarrow> (set (concat (map (\<lambda>p. key_symbols (fst p)) kvs)) \<subseteq> set symbols \<and>
      distinct (concat (map (\<lambda>p. key_symbols (fst p)) kvs)) \<and>
      set (concat (map (\<lambda>p. key_symbols (fst p)) kvs)) \<inter> set r = {})"
      by (rule Cons.IH)
    finally have eq: "check_specifieds_loop symbols (kv # kvs) so_far = Inr u \<longleftrightarrow>
      (set (concat (map (\<lambda>p. key_symbols (fst p)) kvs)) \<subseteq> set symbols \<and>
      distinct (concat (map (\<lambda>p. key_symbols (fst p)) kvs)) \<and>
      set (concat (map (\<lambda>p. key_symbols (fst p)) kvs)) \<inter> set r = {})" .
    show ?thesis unfolding eq using r kv by auto
  qed
qed

lemma check_specifieds_loop_Inl:
  "check_specifieds_loop symbols kvs so_far = Inl e \<Longrightarrow>
     (\<exists>s\<in>set (concat (map (\<lambda>p. key_symbols (fst p)) kvs)).
         s \<notin> set symbols \<and> e = ValueError (NotASpecified s)) \<or>
     (\<exists>s\<in>set (concat (map (\<lambda>p. key_symbols (fst p)) kvs)).
         s \<in> set symbols \<and> e = ValueError (AppearsMoreThanOnce s))"
proof (induction kvs arbitrary: so_far)
  case Nil
  then show ?case by simp
next
  case (Cons kv kvs)
  obtain k v where kv: "kv = (k, v)" by (cases kv)
  show ?case
  proof (cases "check_specifieds_key symbols k so_far")
    case (Inl e')
    with Cons.prems kv have "e' = e" by simp
    with Inl check_specifieds_key_Inl[of symbols k so_far e] kv show ?thesis by auto
  next
    case (Inr r)
    with Cons.prems kv have "check_specifieds_loop symbols kvs r = Inl e" by simp
    from Cons.IH[OF this] kv show ?thesis by auto
  qed
qed

lemma referenced_symbols_items:
  "concat (map (\<lambda>p. key_symbols (fst p)) (items d)) = referenced_symbols d"
  by (simp add: referenced_symbols_def keys_def comp_def)

lemma check_specifieds_Inr:
  "check_specifieds self (specifieds self) = Inr u \<longleftrightarrow> valid_specifieds self"
  by (simp add: check_specifieds_def check_specifieds_loop_Inr referenced_symbols_items
      valid_specifieds_def)

lemma check_constants_Inr:
  "check_constants self (constants self) = Inr u \<longleftrightarrow> valid_constants self"
  by (simp add: check_constants_def check_constants_loop_Inr valid_constants_def)

lemma check_initial_conditions_loop_Inr:
  "check_initial_conditions_loop symbols ks = Inr u \<longleftrightarrow> (\<forall>k\<in>set ks. key_in k symbols)"
  by (induction ks) auto

lemma check_initial_conditions_loop_Inl:
  "check_initial_conditions_loop symbols ks = Inl e \<Longrightarrow>
     \<exists>k\<in>set ks. \<not> key_in k symbols \<and> e = ValueError (NotAState k)"
  by (induction ks) (auto split: if_splits)

lemma check_initial_conditions_Inr:
  "check_initial_conditions self (initial_conditions self) = Inr u \<longleftrightarrow>
     valid_initial_conditions self"
  by (simp add: check_initial_conditions_def check_initial_conditions_loop_Inr
      valid_initial_conditions_def)

section \<open>Duplicate symbols in the specifieds mapping\<close>

text \<open>
  C4, as amended. When some symbol is referenced more than once across the keys of a
  specifieds mapping, tuples flattened, the setter raises a validation error and leaves the
  object as it was. The error is the "appears more than once" \<^verbatim>\<open>ValueError\<close> (the
  specification's \<^verbatim>\<open>DuplicateSymbolError\<close>) whenever every referenced symbol is a specified
  symbol; otherwise it may be the "is not a 'specified' symbol" one, because each key is
  checked for membership before it is checked for repetition.
\<close>

theorem specifieds_setter_duplicate:
  assumes "\<not> distinct (referenced_symbols sp)"
  shows "\<exists>m. specifieds_setter self sp = (Inl (ValueError m), self) \<and>
           ((\<exists>s\<in>set (referenced_symbols sp).
               s \<notin> set (specifieds_symbols self) \<and> m = NotASpecified s) \<or>
            (\<exists>s\<in>set (referenced_symbols sp). m = AppearsMoreThanOnce s)) \<and>
           (set (referenced_symbols sp) \<subseteq> set (specifieds_symbols self) \<longrightarrow>
              (\<exists>s\<in>set (referenced_symbols sp). m = AppearsMoreThanOnce s))"
proof (cases "check_specifieds self sp")
  case (Inl e)
  then have l: "check_specifieds_loop (specifieds_symbols self) (items sp) [] = Inl e"
    by (simp add: check_specifieds_def)
  have s: "specifieds_setter self sp = (Inl e, self)"
    by (simp add: specifieds_setter_def Inl)
  from check_specifieds_loop_Inl[OF l] show ?thesis
    unfolding referenced_symbols_items s by auto
next
  case (Inr u)
  then have "distinct (referenced_symbols sp)"
    by (simp add: check_specifieds_def check_specifieds_loop_Inr referenced_symbols_items)
  with assms show ?thesis by simp
qed

lemma items_shared_force:
  "items shared_force = [(Tuple [''F'', ''G''], PySeq [PyFloat 1, PyFloat 2]), (Single ''G'', PyFloat 4)]"
  by (simp add: shared_force_def dict_eval)

theorem specifieds_setter_duplicate_witness:
  "\<not> distinct (referenced_symbols shared_force) \<and>
   set (referenced_symbols shared_force) \<subseteq> set (specifieds_symbols oscillator_system) \<and>
   specifieds_setter oscillator_system shared_force =
     (Inl (ValueError (AppearsMoreThanOnce ''G'')), oscillator_system)"
proof -
  have r: "referenced_symbols shared_force = [''F'', ''G'', ''G'']"
    by (simp add: referenced_symbols_def keys_def items_shared_force)
  have h: "\<not> distinct (referenced_symbols shared_force)" by (simp add: r)
  have v: "specifieds_setter oscillator_system shared_force =
     (Inl (ValueError (AppearsMoreThanOnce ''G'')), oscillator_system)"
    by (simp add: specifieds_setter_def check_specifieds_def items_shared_force
        specifieds_symbols_def oscillator_system_def assert_is_specified_symbol_def
        assert_symbol_appears_multiple_times_def)
  from specifieds_setter_duplicate[OF h, of oscillator_system] h v show ?thesis
    by (simp add: r specifieds_symbols_def oscillator_system_def)
qed

text \<open>
  The claim as written fails: \<^verbatim>\<open>F\<close> is a specified symbol referenced by two keys, yet the
  error raised is the one for the unknown symbol \<^verbatim>\<open>Z\<close>, in either iteration order.
\<close>

theorem specifieds_setter_duplicate_counterexample:
  "\<not> distinct (referenced_symbols shared_and_unknown) \<and>
   ''F'' \<in> set (specifieds_symbols oscillator_system) \<and>
   specifieds_setter oscillator_system shared_and_unknown =
     (Inl (ValueError (NotASpecified ''Z'')), oscillator_system) \<and>
   \<not> distinct (referenced_symbols unknown_and_shared) \<and>
   specifieds_setter oscillator_system unknown_and_shared =
     (Inl (ValueError (NotASpecified ''Z'')), oscillator_system)"
proof -
  have i1: "items shared_and_unknown =
      [(Tuple [''F'', ''Z''], PySeq [PyFloat 1, PyFloat 2]), (Single ''F'', PyFloat 4)]"
    by (simp add: shared_and_unknown_def dict_eval)
  have i2: "items unknown_and_shared =
      [(Single ''F'', PyFloat 4), (Tuple [''F'', ''Z''], PySeq [PyFloat 1, PyFloat 2])]"
    by (simp add: unknown_and_shared_def dict_eval)
  show ?thesis
    by (simp add: referenced_symbols_def keys_def i1 i2 specifieds_setter_def
        check_specifieds_def specifieds_symbols_def oscillator_system_def
        assert_is_specified_symbol_def assert_symbol_appears_multiple_times_def)
qed

section \<open>Validation before integrating\<close>

text \<open>
  C1. Whenever one of the three stored mappings is invalid when \<^verbatim>\<open>integrate\<close> is called,
  \<^verbatim>\<open>integrate\<close> raises the validation error of the first check that fails, in the order
  constants, specifieds, initial conditions; the object is unchanged and no call of the
  code generator or of the solver has been made (the trace is the one it was called with).
\<close>

theorem integrate_revalidates:
  assumes "\<not> (valid_constants self \<and> valid_specifieds self \<and> valid_initial_conditions self)"
  shows "\<exists>m. integrate ext self tr times' = (Inl (ValueError m), self, tr) \<and>
           (\<not> valid_constants self \<longrightarrow>
              (\<exists>k\<in>set (keys (constants self)).
                  \<not> key_in k (constants_symbols self) \<and> m = NotAConstant k)) \<and>
           (valid_constants self \<and> \<not> valid_specifieds self \<longrightarrow>
              (\<exists>s\<in>set (referenced_symbols (specifieds self)).
                  (s \<notin> set (specifieds_symbols self) \<and> m = NotASpecified s) \<or>
                  m = AppearsMoreThanOnce s)) \<and>
           (valid_constants self \<and> valid_specifieds self \<longrightarrow>
              (\<exists>k\<in>set (keys (initial_conditions self)).
                  \<not> key_in k (states self) \<and> m = NotAState k))"
proof (cases "check_constants self (constants self)")
  case (Inl e)
  then have nv: "\<not> valid_constants self"
    using check_constants_Inr[of self "()"] by simp
  from Inl have "check_constants_loop (constants_symbols self) (keys (constants self)) = Inl e"
    by (simp add: check_constants_def)
  from check_constants_loop_Inl[OF this] obtain k where
    k: "k \<in> set (keys (constants self))" "\<not> key_in k (constants_symbols self)"
       "e = ValueError (NotAConstant k)" by blast
  have "integrate ext self tr times' = (Inl e, self, tr)"
    by (simp add: integrate_def Inl)
  with k nv show ?thesis by auto
next
  case c: (Inr u)
  then have vc: "valid_constants self" using check_constants_Inr[of self u] by simp
  show ?thesis
  proof (cases "check_specifieds self (specifieds self)")
    case (Inl e)
    then have nv: "\<not> valid_specifieds self"
      using check_specifieds_Inr[of self "()"] by simp
    from Inl have "check_specifieds_loop (specifieds_symbols self) (items (specifieds self)) []
        = Inl e" by (simp add: check_specifieds_def)
    from check_specifieds_loop_Inl[OF this]
    have "\<exists>s\<in>set (referenced_symbols (specifieds self)).
        (s \<notin> set (specifieds_symbols self) \<and> e = ValueError (NotASpecified s)) \<or>
        e = ValueError (AppearsMoreThanOnce s)"
      unfolding referenced_symbols_items by auto
    moreover have "integrate ext self tr times' = (Inl e, self, tr)"
      by (simp add: integrate_def c Inl)
    ultimately show ?thesis using vc nv by auto
  next
    case s: (Inr u')
    then have vs: "valid_specifieds self" using check_specifieds_Inr[of self u'] by simp
    with vc assms have ni: "\<not> valid_initial_conditions self" by simp
    then obtain e where e: "check_initial_conditions self (initial_conditions self) = Inl e"
      using check_initial_conditions_Inr[of self "()"]
      by (cases "check_initial_conditions self (initial_conditions self)") auto
    then have "check_initial_conditions_loop (states self) (keys (initial_conditions self))
        = Inl e" by (simp add: check_initial_conditions_def)
    from check_initial_conditions_loop_Inl[OF this] obtain k where
      k: "k \<in> set (keys (initial_conditions self))" "\<not> key_in k (states self)"
         "e = ValueError (NotAState k)" by blast
    have "integrate ext self tr times' = (Inl e, self, tr)"
      by (simp add: integrate_def c s e)
    with k vc vs show ?thesis by auto
  qed
qed

theorem integrate_revalidates_witness:
  "\<not> (valid_constants oscillator_mutated \<and> valid_specifieds oscillator_mutated \<and>
       valid_initial_conditions oscillator_mutated) \<and>
   integrate counting_externals oscillator_mutated [] (PySeq [PyFloat 0, PyFloat 1]) =
     (Inl (ValueError (NotAState (Single ''y''))), oscillator_mutated, [])"
proof -
  have k: "keys (initial_conditions oscillator_mutated) = [Single ''v'', Single ''y'']"
    by (simp add: initial_conditions_def oscillator_mutated_def dict_eval)
  have s: "states oscillator_mutated = [''x'', ''v'']"
    by (simp add: states_def coordinates_def speeds_def eom_method_def oscillator_mutated_def
        oscillator_system_def oscillator_def)
  have c: "keys (constants oscillator_mutated) = [Single ''m'']"
    by (simp add: constants_def oscillator_mutated_def oscillator_system_def dict_eval)
  have cs: "constants_symbols oscillator_mutated = [''m'', ''k'', ''c'']"
    by (simp add: constants_symbols_def oscillator_mutated_def oscillator_system_def)
  have vc: "valid_constants oscillator_mutated"
    by (simp add: valid_constants_def c cs)
  have r: "referenced_symbols (specifieds oscillator_mutated) = [''F'']"
    by (simp add: referenced_symbols_def specifieds_def oscillator_mutated_def
        oscillator_system_def dict_eval)
  have ss: "specifieds_symbols oscillator_mutated = [''F'', ''G'']"
    by (simp add: specifieds_symbols_def oscillator_mutated_def oscillator_system_def)
  have vs: "valid_specifieds oscillator_mutated"
    unfolding valid_specifieds_def r ss by simp
  have h: "\<not> (valid_constants oscillator_mutated \<and> valid_specifieds oscillator_mutated \<and>
       valid_initial_conditions oscillator_mutated)"
    by (simp add: valid_initial_conditions_def k s)
  from integrate_revalidates[OF h, of counting_externals "[]" "PySeq [PyFloat 0, PyFloat 1]"]
  show ?thesis using h vc vs by (auto simp: k s)
qed

section \<open>Padding with defaults\<close>

lemma key_in_iff: "key_in k symbols \<longleftrightarrow> k \<in> Single ` set symbols"
  by (cases k) auto

lemma defaults_map_filter:
  "[(Single s, v). s \<leftarrow> xs, P s] = map (\<lambda>s. (Single s, v)) (filter P xs)"
  by (induction xs) auto

lemma lookup_defaults:
  "DAList.lookup (dict_of [(Single s, v). s \<leftarrow> xs, P s]) k =
     (if \<exists>s\<in>set xs. P s \<and> k = Single s then Some v else None)"
proof (cases "map_of (rev (map (\<lambda>s. (Single s, v)) (filter P xs))) k")
  case None
  then have "k \<notin> fst ` set (rev (map (\<lambda>s. (Single s, v)) (filter P xs)))"
    by (metis map_of_eq_None_iff)
  moreover have "fst ` set (rev (map (\<lambda>s. (Single s, v)) (filter P xs))) =
      Single ` {s \<in> set xs. P s}"
    by (auto simp: image_iff)
  ultimately have "\<not> (\<exists>s\<in>set xs. P s \<and> k = Single s)" by blast
  with None show ?thesis by (simp add: lookup_dict_of defaults_map_filter)
next
  case (Some w)
  then have "(k, w) \<in> set (rev (map (\<lambda>s. (Single s, v)) (filter P xs)))"
    by (rule map_of_SomeD)
  then have "w = v \<and> (\<exists>s\<in>set xs. P s \<and> k = Single s)" by auto
  with Some show ?thesis by (simp add: lookup_dict_of defaults_map_filter)
qed

lemma lookup_merged:
  "DAList.lookup (dict_of (items m @ items d)) k =
     (case DAList.lookup d k of None \<Rightarrow> DAList.lookup m k | Some v \<Rightarrow> Some v)"
  by (simp add: lookup_dict_of map_of_rev_items map_add_def
      lookup_items[of m] lookup_items[of d] split: option.splits)

lemma lookup_constants_padded:
  "DAList.lookup (constants_padded_with_defaults self) k =
     (case DAList.lookup (constants self) k of
        Some v \<Rightarrow> Some v
      | None \<Rightarrow> if k \<in> Single ` set (constants_symbols self) then Some (PyFloat 1) else None)"
  by (auto simp: constants_padded_with_defaults_def lookup_merged lookup_defaults in_dict_def
      split: option.splits)

lemma lookup_initial_conditions_padded:
  "DAList.lookup (initial_conditions_padded_with_defaults self) k =
     (case DAList.lookup (initial_conditions self) k of
        Some v \<Rightarrow> Some v
      | None \<Rightarrow> if k \<in> Single ` set (states self) then Some (PyFloat 0) else None)"
  by (auto simp: initial_conditions_padded_with_defaults_def lookup_merged lookup_defaults
      in_dict_def split: option.splits)

lemma symbol_is_in_keys_iff:
  "symbol_is_in_keys symbol ks \<longleftrightarrow> symbol \<in> set (concat (map key_symbols ks))"
proof (induction ks)
  case Nil
  then show ?case by simp
next
  case (Cons k ks)
  then show ?case by (cases k) auto
qed

lemma symbol_is_in_specifieds_dict_iff:
  "symbol_is_in_specifieds_dict symbol d \<longleftrightarrow> symbol \<in> set (referenced_symbols d)"
  by (simp add: symbol_is_in_specifieds_dict_def symbol_is_in_keys_iff referenced_symbols_def)

lemma Single_referenced:
  "DAList.lookup d (Single s) = Some v \<Longrightarrow> s \<in> set (referenced_symbols d)"
proof -
  assume "DAList.lookup d (Single s) = Some v"
  then have "Single s \<in> set (keys d)" by (auto simp: set_keys_dom)
  then show ?thesis by (force simp: referenced_symbols_def)
qed

lemma lookup_specifieds_padded:
  "DAList.lookup (specifieds_padded_with_defaults self) k =
     (case DAList.lookup (specifieds self) k of
        Some v \<Rightarrow> Some v
      | None \<Rightarrow>
          if k \<in> Single ` {s \<in> set (specifieds_symbols self).
                              s \<notin> set (referenced_symbols (specifieds self))}
          then Some (PyFloat 0) else None)"
  by (auto simp: specifieds_padded_with_defaults_def lookup_merged lookup_defaults
      symbol_is_in_specifieds_dict_iff split: option.splits dest: Single_referenced)

text \<open>The stored mappings of the example system.\<close>

lemma oscillator_system_constants:
  "constants oscillator_system = dict_of [(Single ''m'', PyFloat 2)]"
  "constants_symbols oscillator_system = [''m'', ''k'', ''c'']"
  by (simp_all add: constants_def constants_symbols_def oscillator_system_def)

lemma oscillator_system_specifieds:
  "specifieds oscillator_system = dict_of [(Single ''F'', PyCallable 7)]"
  "specifieds_symbols oscillator_system = [''F'', ''G'']"
  by (simp_all add: specifieds_def specifieds_symbols_def oscillator_system_def)

lemma oscillator_system_initial_conditions:
  "initial_conditions oscillator_system = dict_of [(Single ''v'', PyFloat 3)]"
  "states oscillator_system = [''x'', ''v'']"
  by (simp_all add: initial_conditions_def states_def coordinates_def speeds_def eom_method_def
      oscillator_system_def oscillator_def)

lemma oscillator_system_valid:
  "valid_constants oscillator_system"
  "valid_specifieds oscillator_system"
  "valid_initial_conditions oscillator_system"
  unfolding valid_constants_def valid_specifieds_def valid_initial_conditions_def
    referenced_symbols_def oscillator_system_constants oscillator_system_specifieds
    oscillator_system_initial_conditions
  by (simp_all add: dict_eval)

text \<open>
  C2. When the stored constants mapping is valid, the constants padded with defaults have
  exactly the constant symbols as keys, every stored entry keeps its value, and every
  constant symbol that is not a key of the stored mapping gets \<^verbatim>\<open>1.0\<close>. No default is
  ever written for a key that is set, so a value that is set is never overridden.
\<close>

theorem constants_padded_with_defaults_correct:
  assumes "valid_constants self"
  shows "set (keys (constants_padded_with_defaults self)) = Single ` set (constants_symbols self) \<and>
         (\<forall>k v. DAList.lookup (constants self) k = Some v \<longrightarrow>
                DAList.lookup (constants_padded_with_defaults self) k = Some v) \<and>
         (\<forall>s\<in>set (constants_symbols self). \<not> in_dict (Single s) (constants self) \<longrightarrow>
                DAList.lookup (constants_padded_with_defaults self) (Single s) = Some (PyFloat 1))"
proof -
  from assms have sub: "dom (DAList.lookup (constants self)) \<subseteq> Single ` set (constants_symbols self)"
    by (auto simp: valid_constants_def key_in_iff set_keys_dom)
  have "dom (DAList.lookup (constants_padded_with_defaults self)) =
      dom (DAList.lookup (constants self)) \<union> Single ` set (constants_symbols self)"
    by (auto simp: lookup_constants_padded split: option.splits if_splits)
  with sub have "set (keys (constants_padded_with_defaults self)) =
      Single ` set (constants_symbols self)"
    by (auto simp: set_keys_dom)
  then show ?thesis
    by (simp add: lookup_constants_padded in_dict_def)
qed

theorem constants_padded_with_defaults_correct_witness:
  "valid_constants oscillator_system \<and>
   DAList.lookup (constants oscillator_system) (Single ''m'') = Some (PyFloat 2) \<and>
   DAList.lookup (constants_padded_with_defaults oscillator_system) (Single ''m'')
     = Some (PyFloat 2) \<and>
   ''k'' \<in> set (constants_symbols oscillator_system) \<and>
   \<not> in_dict (Single ''k'') (constants oscillator_system) \<and>
   DAList.lookup (constants_padded_with_defaults oscillator_system) (Single ''k'')
     = Some (PyFloat 1) \<and>
   set (keys (constants_padded_with_defaults oscillator_system))
     = {Single ''m'', Single ''k'', Single ''c''}"
proof -
  have m: "DAList.lookup (constants oscillator_system) (Single ''m'') = Some (PyFloat 2)"
    unfolding oscillator_system_constants by (simp add: dict_eval)
  have k: "\<not> in_dict (Single ''k'') (constants oscillator_system)"
    unfolding oscillator_system_constants by (simp add: dict_eval)
  have s: "''k'' \<in> set (constants_symbols oscillator_system)"
    unfolding oscillator_system_constants by simp
  from constants_padded_with_defaults_correct[OF oscillator_system_valid(1)] m k s
  show ?thesis
    by (auto simp: oscillator_system_valid(1) oscillator_system_constants(2))
qed

text \<open>
  C3. The specifieds padded with defaults keep every stored entry, scalar or tuple key,
  with its value, and add \<^verbatim>\<open>0.0\<close> for exactly the specified symbols that no key
  references, a symbol being referenced when it is a scalar key or an element of a tuple
  key. The initial conditions padded with defaults keep every stored entry and give
  \<^verbatim>\<open>0.0\<close> to every other state symbol; for a valid mapping the keys are exactly the state
  symbols. All of this holds for every stored mapping, valid ones included.
\<close>

theorem specifieds_and_initial_conditions_padded_correct:
  "(\<forall>k v. DAList.lookup (specifieds self) k = Some v \<longrightarrow>
          DAList.lookup (specifieds_padded_with_defaults self) k = Some v) \<and>
   (\<forall>s\<in>set (specifieds_symbols self). s \<notin> set (referenced_symbols (specifieds self)) \<longrightarrow>
          DAList.lookup (specifieds_padded_with_defaults self) (Single s) = Some (PyFloat 0)) \<and>
   set (keys (specifieds_padded_with_defaults self)) =
     set (keys (specifieds self)) \<union>
     Single ` {s \<in> set (specifieds_symbols self).
                s \<notin> set (referenced_symbols (specifieds self))} \<and>
   (\<forall>k v. DAList.lookup (initial_conditions self) k = Some v \<longrightarrow>
          DAList.lookup (initial_conditions_padded_with_defaults self) k = Some v) \<and>
   (\<forall>s\<in>set (states self). \<not> in_dict (Single s) (initial_conditions self) \<longrightarrow>
          DAList.lookup (initial_conditions_padded_with_defaults self) (Single s)
            = Some (PyFloat 0)) \<and>
   set (keys (initial_conditions_padded_with_defaults self)) =
     set (keys (initial_conditions self)) \<union> Single ` set (states self) \<and>
   (valid_initial_conditions self \<longrightarrow>
      set (keys (initial_conditions_padded_with_defaults self)) = Single ` set (states self))"
proof -
  have a: "\<forall>k v. DAList.lookup (specifieds self) k = Some v \<longrightarrow>
          DAList.lookup (specifieds_padded_with_defaults self) k = Some v"
    by (simp add: lookup_specifieds_padded)
  have b: "\<forall>s\<in>set (specifieds_symbols self). s \<notin> set (referenced_symbols (specifieds self)) \<longrightarrow>
          DAList.lookup (specifieds_padded_with_defaults self) (Single s) = Some (PyFloat 0)"
    by (auto simp: lookup_specifieds_padded split: option.splits dest: Single_referenced)
  have c: "set (keys (specifieds_padded_with_defaults self)) =
     set (keys (specifieds self)) \<union>
     Single ` {s \<in> set (specifieds_symbols self).
                s \<notin> set (referenced_symbols (specifieds self))}"
    unfolding set_keys_dom
    by (auto simp: lookup_specifieds_padded split: option.splits if_splits)
  have d: "\<forall>k v. DAList.lookup (initial_conditions self) k = Some v \<longrightarrow>
          DAList.lookup (initial_conditions_padded_with_defaults self) k = Some v"
    by (simp add: lookup_initial_conditions_padded)
  have e: "\<forall>s\<in>set (states self). \<not> in_dict (Single s) (initial_conditions self) \<longrightarrow>
          DAList.lookup (initial_conditions_padded_with_defaults self) (Single s)
            = Some (PyFloat 0)"
    by (simp add: lookup_initial_conditions_padded in_dict_def)
  have f: "set (keys (initial_conditions_padded_with_defaults self)) =
     set (keys (initial_conditions self)) \<union> Single ` set (states self)"
    unfolding set_keys_dom
    by (auto simp: lookup_initial_conditions_padded split: option.splits if_splits)
  have g: "valid_initial_conditions self \<longrightarrow>
      set (keys (initial_conditions_padded_with_defaults self)) = Single ` set (states self)"
    unfolding f by (auto simp: valid_initial_conditions_def key_in_iff)
  from a b c d e f g show ?thesis by blast
qed

theorem specifieds_and_initial_conditions_padded_correct_witness:
  "DAList.lookup (specifieds oscillator_system) (Single ''F'') = Some (PyCallable 7) \<and>
   DAList.lookup (specifieds_padded_with_defaults oscillator_system) (Single ''F'')
     = Some (PyCallable 7) \<and>
   ''G'' \<in> set (specifieds_symbols oscillator_system) \<and>
   ''G'' \<notin> set (referenced_symbols (specifieds oscillator_system)) \<and>
   DAList.lookup (specifieds_padded_with_defaults oscillator_system) (Single ''G'')
     = Some (PyFloat 0) \<and>
   DAList.lookup (initial_conditions oscillator_system) (Single ''v'') = Some (PyFloat 3) \<and>
   DAList.lookup (initial_conditions_padded_with_defaults oscillator_system) (Single ''v'')
     = Some (PyFloat 3) \<and>
   ''x'' \<in> set (states oscillator_system) \<and>
   \<not> in_dict (Single ''x'') (initial_conditions oscillator_system) \<and>
   DAList.lookup (initial_conditions_padded_with_defaults oscillator_system) (Single ''x'')
     = Some (PyFloat 0) \<and>
   valid_initial_conditions oscillator_system \<and>
   set (keys (initial_conditions_padded_with_defaults oscillator_system))
     = {Single ''x'', Single ''v''}"
proof -
  have f: "DAList.lookup (specifieds oscillator_system) (Single ''F'') = Some (PyCallable 7)"
    unfolding oscillator_system_specifieds by (simp add: dict_eval)
  have g: "''G'' \<in> set (specifieds_symbols oscillator_system)"
    "''G'' \<notin> set (referenced_symbols (specifieds oscillator_system))"
    unfolding oscillator_system_specifieds referenced_symbols_def by (simp_all add: dict_eval)
  have v: "DAList.lookup (initial_conditions oscillator_system) (Single ''v'') = Some (PyFloat 3)"
    unfolding oscillator_system_initial_conditions by (simp add: dict_eval)
  have x: "''x'' \<in> set (states oscillator_system)"
    "\<not> in_dict (Single ''x'') (initial_conditions oscillator_system)"
    unfolding oscillator_system_initial_conditions by (simp_all add: dict_eval)
  from specifieds_and_initial_conditions_padded_correct[of oscillator_system] f g v x
    oscillator_system_valid(3)
  show ?thesis
    by (auto simp: oscillator_system_initial_conditions(2))
qed

section \<open>The constructor, the states and the solver\<close>

lemma Kane_oscillator:
  assumes "eom_method_attr self = oscillator"
  shows "Kane_constant_symbols self = Inr [''m'', ''k'', ''c'']"
    and "Kane_undefined_dynamicsymbols self = Inr [''F'', ''G'']"
  using assms
  by (simp_all add: Kane_constant_symbols_def Kane_undefined_dynamicsymbols_def
      Kane_inlist_insyms_def eom_method_def oscillator_def list_remove_def)

lemma init_oscillator:
  "init oscillator (dict_of [(Single ''m'', PyFloat 2)]) (dict_of [(Single ''F'', PyCallable 7)])
     (PyCallable 0) (dict_of [(Single ''v'', PyFloat 3)]) = Inr oscillator_system"
  by (simp add: init_def Kane_oscillator constants_setter_def check_constants_def
      constants_symbols_def specifieds_setter_def check_specifieds_def specifieds_symbols_def
      assert_is_specified_symbol_def assert_symbol_appears_multiple_times_def
      ode_solver_setter_def initial_conditions_setter_def check_initial_conditions_def
      states_def coordinates_def speeds_def eom_method_def oscillator_system_def
      keys_def items_def DAList.update.rep_eq DAList.empty.rep_eq dict_of_def[of "[_]"]
      oscillator_def)

lemma init_Inr:
  assumes "init eom cs sp solver ic = Inr self"
  shows "eom_method self = eom \<and> constants self = cs \<and> specifieds self = sp \<and>
         callable solver \<and> ode_solver self = solver \<and> initial_conditions self = ic \<and>
         evaluate_ode_function self = PyNone"
  using assms
  by (auto simp: init_def Let_def constants_setter_def specifieds_setter_def
      ode_solver_setter_def initial_conditions_setter_def eom_method_def constants_def
      specifieds_def ode_solver_def initial_conditions_def evaluate_ode_function_def
      split: sum.splits if_splits)

lemma setters_keep_eom_method:
  "eom_method (snd (constants_setter self cs)) = eom_method self"
  "eom_method (snd (specifieds_setter self sp)) = eom_method self"
  "eom_method (snd (ode_solver_setter self solver)) = eom_method self"
  "eom_method (snd (initial_conditions_setter self ic)) = eom_method self"
  by (simp_all add: constants_setter_def specifieds_setter_def ode_solver_setter_def
      initial_conditions_setter_def eom_method_def split: sum.splits)

lemma generate_ode_function_object:
  "fst (snd (generate_ode_function ext self tr generator kwargs)) = self \<or>
   (\<exists>f. fst (snd (generate_ode_function ext self tr generator kwargs)) =
          self\<lparr>evaluate_ode_function_attr := f\<rparr>)"
  by (auto simp: generate_ode_function_def Let_def split: sum.splits)

lemma integrate_object:
  "fst (snd (integrate ext self tr times')) = self \<or>
   (\<exists>f. fst (snd (integrate ext self tr times')) = self\<lparr>evaluate_ode_function_attr := f\<rparr>)"
proof (cases "evaluate_ode_function self = PyNone")
  case True
  obtain r self' tr' where g: "generate_ode_function ext self tr ''lambdify'' [] = (r, self', tr')"
    by (cases "generate_ode_function ext self tr ''lambdify'' []") auto
  with generate_ode_function_object[of ext self tr "''lambdify''" "[]"]
  have "self' = self \<or> (\<exists>f. self' = self\<lparr>evaluate_ode_function_attr := f\<rparr>)" by simp
  then show ?thesis
    by (auto simp: integrate_def True g Let_def split: sum.splits prod.splits)
next
  case False
  then show ?thesis
    by (auto simp: integrate_def Let_def split: sum.splits prod.splits)
qed

lemma states_evaluate_update [simp]:
  "states (self\<lparr>evaluate_ode_function_attr := f\<rparr>) = states self"
  by (simp add: states_def coordinates_def speeds_def eom_method_def)

text \<open>
  C6. The states are the coordinate symbols of the attached model followed by its speed
  symbols. They depend on the attached model alone: a system constructed from a model has
  that model's coordinates and speeds as states, and no setter, no generation of the
  derivative function and no integration changes them.
\<close>

theorem states_coordinates_then_speeds:
  "states self = q_attr (eom_method self) @ u_attr (eom_method self) \<and>
   (\<forall>self'. init eom cs0 sp0 solver0 ic0 = Inr self' \<longrightarrow>
        states self' = q_attr eom @ u_attr eom) \<and>
   states (snd (constants_setter self cs)) = states self \<and>
   states (snd (specifieds_setter self sp)) = states self \<and>
   states (snd (ode_solver_setter self solver)) = states self \<and>
   states (snd (initial_conditions_setter self ic)) = states self \<and>
   states (fst (snd (generate_ode_function ext self tr generator kwargs))) = states self \<and>
   states (fst (snd (integrate ext self tr times'))) = states self"
proof -
  have a: "states self = q_attr (eom_method self) @ u_attr (eom_method self)"
    by (simp add: states_def coordinates_def speeds_def)
  have b: "\<forall>self'. init eom cs0 sp0 solver0 ic0 = Inr self' \<longrightarrow>
        states self' = q_attr eom @ u_attr eom"
    using init_Inr[of eom cs0 sp0 solver0 ic0]
    by (auto simp: states_def coordinates_def speeds_def)
  have c: "states (snd (constants_setter self cs)) = states self"
    "states (snd (specifieds_setter self sp)) = states self"
    "states (snd (ode_solver_setter self solver)) = states self"
    "states (snd (initial_conditions_setter self ic)) = states self"
    by (simp_all add: states_def coordinates_def speeds_def setters_keep_eom_method)
  have d: "states (fst (snd (generate_ode_function ext self tr generator kwargs))) = states self"
    using generate_ode_function_object[of ext self tr generator kwargs] by auto
  have e: "states (fst (snd (integrate ext self tr times'))) = states self"
    using integrate_object[of ext self tr times'] by auto
  from a b c d e show ?thesis by blast
qed

theorem states_coordinates_then_speeds_witness:
  "init oscillator (dict_of [(Single ''m'', PyFloat 2)]) (dict_of [(Single ''F'', PyCallable 7)])
     (PyCallable 0) (dict_of [(Single ''v'', PyFloat 3)]) = Inr oscillator_system \<and>
   states oscillator_system = q_attr oscillator @ u_attr oscillator \<and>
   states oscillator_system = [''x'', ''v'']"
  using states_coordinates_then_speeds[of oscillator_system oscillator
      "dict_of [(Single ''m'', PyFloat 2)]" "dict_of [(Single ''F'', PyCallable 7)]"
      "PyCallable 0" "dict_of [(Single ''v'', PyFloat 3)]"]
    init_oscillator
  by (simp add: oscillator_def eom_method_def oscillator_system_def)

text \<open>
  C10. The setter of \<^verbatim>\<open>ode_solver\<close> raises a \<^verbatim>\<open>ValueError\<close> and leaves the object as it was
  when the value has no \<^verbatim>\<open>__call__\<close>, and stores the value when it has one. The
  constructor assigns through the same setter: with a value that is not callable the
  construction raises, and a system that has been constructed holds the callable it was
  given.
\<close>

theorem ode_solver_setter_checks_callable:
  "(\<not> callable solver \<longrightarrow>
      ode_solver_setter self solver = (Inl (ValueError (NotAFunction solver)), self)) \<and>
   (callable solver \<longrightarrow>
      ode_solver_setter self solver = (Inr (), self\<lparr>ode_solver_attr := solver\<rparr>) \<and>
      ode_solver (snd (ode_solver_setter self solver)) = solver) \<and>
   (\<not> callable solver \<longrightarrow> (\<exists>e. init eom cs sp solver ic = Inl e)) \<and>
   (\<forall>self'. init eom cs sp solver ic = Inr self' \<longrightarrow>
      callable solver \<and> ode_solver self' = solver)"
proof -
  have a: "\<not> callable solver \<longrightarrow>
      ode_solver_setter self solver = (Inl (ValueError (NotAFunction solver)), self)"
    by (simp add: ode_solver_setter_def)
  have b: "callable solver \<longrightarrow>
      ode_solver_setter self solver = (Inr (), self\<lparr>ode_solver_attr := solver\<rparr>) \<and>
      ode_solver (snd (ode_solver_setter self solver)) = solver"
    by (simp add: ode_solver_setter_def ode_solver_def)
  have d: "\<forall>self'. init eom cs sp solver ic = Inr self' \<longrightarrow>
      callable solver \<and> ode_solver self' = solver"
    using init_Inr[of eom cs sp solver ic] by auto
  have c: "\<not> callable solver \<longrightarrow> (\<exists>e. init eom cs sp solver ic = Inl e)"
    using d by (cases "init eom cs sp solver ic") auto
  from a b c d show ?thesis by blast
qed

lemma init_oscillator_not_callable:
  "init oscillator (dict_of [(Single ''m'', PyFloat 2)]) (dict_of [(Single ''F'', PyCallable 7)])
     (PyFloat 5) (dict_of [(Single ''v'', PyFloat 3)]) = Inl (ValueError (NotAFunction (PyFloat 5)))"
  by (simp add: init_def Kane_oscillator constants_setter_def check_constants_def
      constants_symbols_def specifieds_setter_def check_specifieds_def specifieds_symbols_def
      assert_is_specified_symbol_def assert_symbol_appears_multiple_times_def
      ode_solver_setter_def 
      keys_def items_def DAList.update.rep_eq DAList.empty.rep_eq dict_of_def[of "[_]"])

theorem ode_solver_setter_checks_callable_witness:
  "\<not> callable (PyFloat 5) \<and>
   ode_solver_setter oscillator_system (PyFloat 5) =
     (Inl (ValueError (NotAFunction (PyFloat 5))), oscillator_system) \<and>
   callable (PyCallable 4) \<and>
   ode_solver (snd (ode_solver_setter oscillator_system (PyCallable 4))) = PyCallable 4 \<and>
   init oscillator (dict_of [(Single ''m'', PyFloat 2)]) (dict_of [(Single ''F'', PyCallable 7)])
     (PyFloat 5) (dict_of [(Single ''v'', PyFloat 3)]) = Inl (ValueError (NotAFunction (PyFloat 5))) \<and>
   init oscillator (dict_of [(Single ''m'', PyFloat 2)]) (dict_of [(Single ''F'', PyCallable 7)])
     (PyCallable 0) (dict_of [(Single ''v'', PyFloat 3)]) = Inr oscillator_system \<and>
   ode_solver oscillator_system = PyCallable 0"
  using ode_solver_setter_checks_callable[of "PyFloat 5" oscillator_system oscillator
      "dict_of [(Single ''m'', PyFloat 2)]" "dict_of [(Single ''F'', PyCallable 7)]"
      "dict_of [(Single ''v'', PyFloat 3)]"]
    ode_solver_setter_checks_callable[of "PyCallable 4" oscillator_system]
    ode_solver_setter_checks_callable[of "PyCallable 0" oscillator_system oscillator
      "dict_of [(Single ''m'', PyFloat 2)]" "dict_of [(Single ''F'', PyCallable 7)]"
      "dict_of [(Single ''v'', PyFloat 3)]"]
    init_oscillator init_oscillator_not_callable
  by (simp add: ode_solver_def)

section \<open>Integrating\<close>

lemma getitems_Inr:
  "getitems d ks = Inr vs \<longleftrightarrow> map (\<lambda>k. DAList.lookup d (Single k)) ks = map Some vs"
proof (induction ks arbitrary: vs)
  case Nil
  then show ?case by auto
next
  case (Cons k ks)
  show ?case
  proof (cases "DAList.lookup d (Single k)")
    case None
    then show ?thesis by (auto simp: getitem_def)
  next
    case (Some v)
    show ?thesis
    proof (cases "getitems d ks")
      case (Inl e)
      then have "\<And>ws. map (\<lambda>k. DAList.lookup d (Single k)) ks \<noteq> map Some ws"
        using Cons.IH by auto
      with Inl Some show ?thesis by (auto simp: getitem_def map_eq_Cons_conv)
    next
      case (Inr ws)
      then have "map (\<lambda>k. DAList.lookup d (Single k)) ks = map Some ws"
        using Cons.IH by simp
      with Inr Some show ?thesis by (auto simp: getitem_def map_eq_Cons_conv)
    qed
  qed
qed

lemma getitems_total:
  "\<forall>k\<in>set ks. DAList.lookup d (Single k) \<noteq> None \<Longrightarrow> \<exists>vs. getitems d ks = Inr vs"
  by (induction ks) (auto simp: getitem_def)

lemma getitems_nth:
  assumes "getitems d ks = Inr vs"
  shows "length vs = length ks \<and>
         (\<forall>i<length ks. DAList.lookup d (Single (ks ! i)) = Some (vs ! i))"
proof -
  from assms have m: "map (\<lambda>k. DAList.lookup d (Single k)) ks = map Some vs"
    by (simp add: getitems_Inr)
  then have l: "length vs = length ks" by (metis length_map)
  have "\<forall>i<length ks. DAList.lookup d (Single (ks ! i)) = Some (vs ! i)"
  proof (intro allI impI)
    fix i assume i: "i < length ks"
    from m have "map (\<lambda>k. DAList.lookup d (Single k)) ks ! i = map Some vs ! i" by simp
    with i l show "DAList.lookup d (Single (ks ! i)) = Some (vs ! i)" by simp
  qed
  with l show ?thesis by blast
qed

lemma getitems_initial_conditions_padded:
  "\<exists>x0. getitems (initial_conditions_padded_with_defaults self) (states self) = Inr x0 \<and>
        length x0 = length (states self) \<and>
        (\<forall>i<length (states self).
            DAList.lookup (initial_conditions_padded_with_defaults self)
              (Single (states self ! i)) = Some (x0 ! i))"
proof -
  have "\<forall>k\<in>set (states self).
      DAList.lookup (initial_conditions_padded_with_defaults self) (Single k) \<noteq> None"
    by (auto simp: lookup_initial_conditions_padded split: option.splits)
  from getitems_total[OF this] obtain x0 where
    x0: "getitems (initial_conditions_padded_with_defaults self) (states self) = Inr x0"
    by blast
  then have m: "map (\<lambda>k. DAList.lookup (initial_conditions_padded_with_defaults self) (Single k))
      (states self) = map Some x0" by (simp add: getitems_Inr)
  then have l: "length x0 = length (states self)" by (metis length_map)
  have "\<forall>i<length (states self).
      DAList.lookup (initial_conditions_padded_with_defaults self) (Single (states self ! i))
        = Some (x0 ! i)"
  proof (intro allI impI)
    fix i assume i: "i < length (states self)"
    from m have "map (\<lambda>k. DAList.lookup (initial_conditions_padded_with_defaults self)
        (Single k)) (states self) ! i = map Some x0 ! i" by simp
    with i l show "DAList.lookup (initial_conditions_padded_with_defaults self)
        (Single (states self ! i)) = Some (x0 ! i)" by simp
  qed
  with x0 l show ?thesis by blast
qed

lemma evaluate_update_reads [simp]:
  "initial_conditions_padded_with_defaults (self\<lparr>evaluate_ode_function_attr := f\<rparr>) =
     initial_conditions_padded_with_defaults self"
  "ode_solver (self\<lparr>evaluate_ode_function_attr := f\<rparr>) = ode_solver self"
  "evaluate_ode_function (self\<lparr>evaluate_ode_function_attr := f\<rparr>) = f"
  by (simp_all add: initial_conditions_padded_with_defaults_def initial_conditions_def
      ode_solver_def evaluate_ode_function_def states_def coordinates_def speeds_def
      eom_method_def)

lemma checks_pass:
  assumes "valid_constants self" "valid_specifieds self" "valid_initial_conditions self"
  shows "check_constants self (constants self) = Inr ()"
    and "check_specifieds self (specifieds self) = Inr ()"
    and "check_initial_conditions self (initial_conditions self) = Inr ()"
  using assms
  by (simp_all add: check_constants_Inr check_specifieds_Inr check_initial_conditions_Inr)

lemma integrate_cached:
  assumes "valid_constants self" "valid_specifieds self" "valid_initial_conditions self"
    and "evaluate_ode_function self \<noteq> PyNone"
    and "getitems (initial_conditions_padded_with_defaults self) (states self) = Inr x0"
  shows "integrate ext self tr times' =
           (fst (call_ode_solver ext tr (ode_solver self) (solver_arguments self x0 times')),
            self,
            snd (call_ode_solver ext tr (ode_solver self) (solver_arguments self x0 times')))"
  using assms(4,5)
  by (simp add: integrate_def checks_pass[OF assms(1-3)] Let_def split: prod.splits)

lemma generate_default:
  "generate_ode_function ext self tr ''lambdify'' [] =
     (case codegen ext tr (codegen_arguments self ''lambdify'' []) of
        Inl e \<Rightarrow> (Inl e, self, tr @ [Codegen (codegen_arguments self ''lambdify'' [])])
      | Inr f \<Rightarrow> (Inr f, self\<lparr>evaluate_ode_function_attr := f\<rparr>,
                  tr @ [Codegen (codegen_arguments self ''lambdify'' [])]))"
  by (simp add: generate_ode_function_def Let_def split: sum.splits)

lemma integrate_uncached:
  assumes "valid_constants self" "valid_specifieds self" "valid_initial_conditions self"
    and "evaluate_ode_function self = PyNone"
    and "codegen ext tr (codegen_arguments self ''lambdify'' []) = Inr f"
    and "getitems (initial_conditions_padded_with_defaults self) (states self) = Inr x0"
  shows "integrate ext self tr times' =
           (fst (call_ode_solver ext (tr @ [Codegen (codegen_arguments self ''lambdify'' [])])
                   (ode_solver self)
                   (solver_arguments (self\<lparr>evaluate_ode_function_attr := f\<rparr>) x0 times')),
            self\<lparr>evaluate_ode_function_attr := f\<rparr>,
            snd (call_ode_solver ext (tr @ [Codegen (codegen_arguments self ''lambdify'' [])])
                   (ode_solver self)
                   (solver_arguments (self\<lparr>evaluate_ode_function_attr := f\<rparr>) x0 times')))"
  using assms(4,5,6)
  by (simp add: integrate_def checks_pass[OF assms(1-3)] generate_default Let_def
      split: prod.splits)

lemma integrate_uncached_failure:
  assumes "valid_constants self" "valid_specifieds self" "valid_initial_conditions self"
    and "evaluate_ode_function self = PyNone"
    and "codegen ext tr (codegen_arguments self ''lambdify'' []) = Inl e"
  shows "integrate ext self tr times' =
           (Inl e, self, tr @ [Codegen (codegen_arguments self ''lambdify'' [])])"
  using assms(4,5)
  by (simp add: integrate_def checks_pass[OF assms(1-3)] generate_default)

lemma integrate_calls_solver:
  assumes "valid_constants self" "valid_specifieds self" "valid_initial_conditions self"
    and "evaluate_ode_function self \<noteq> PyNone \<or>
         (\<exists>f. codegen ext tr (codegen_arguments self ''lambdify'' []) = Inr f)"
    and "callable (ode_solver self)"
  shows "\<exists>self' tr' x0.
           integrate ext self tr times' =
             (apply_callable ext tr' (ode_solver self) (solver_arguments self' x0 times'),
              self',
              tr' @ [OdeSolve (ode_solver self) (solver_arguments self' x0 times')]) \<and>
           sr_initial_conditions (solver_arguments self' x0 times') = x0 \<and>
           length x0 = length (states self) \<and>
           (\<forall>i<length (states self).
               DAList.lookup (initial_conditions_padded_with_defaults self)
                 (Single (states self ! i)) = Some (x0 ! i))"
proof -
  from getitems_initial_conditions_padded[of self] obtain x0 where
    g: "getitems (initial_conditions_padded_with_defaults self) (states self) = Inr x0"
    and l: "length x0 = length (states self)"
    and v: "\<forall>i<length (states self).
            DAList.lookup (initial_conditions_padded_with_defaults self)
              (Single (states self ! i)) = Some (x0 ! i)"
    by blast
  have sr: "\<And>self'. sr_initial_conditions (solver_arguments self' x0 times') = x0"
    by (simp add: solver_arguments_def)
  show ?thesis
  proof (cases "evaluate_ode_function self = PyNone")
    case False
    from integrate_cached[OF assms(1-3) False g, of ext tr times'] assms(5)
    have "integrate ext self tr times' =
             (apply_callable ext tr (ode_solver self) (solver_arguments self x0 times'),
              self, tr @ [OdeSolve (ode_solver self) (solver_arguments self x0 times')])"
      by (simp add: call_ode_solver_def)
    with l v sr show ?thesis by blast
  next
    case True
    with assms(4) obtain f where
      f: "codegen ext tr (codegen_arguments self ''lambdify'' []) = Inr f" by blast
    let ?tr = "tr @ [Codegen (codegen_arguments self ''lambdify'' [])]"
    let ?self = "self\<lparr>evaluate_ode_function_attr := f\<rparr>"
    from integrate_uncached[OF assms(1-3) True f g, of times'] assms(5)
    have "integrate ext self tr times' =
             (apply_callable ext ?tr (ode_solver self) (solver_arguments ?self x0 times'),
              ?self, ?tr @ [OdeSolve (ode_solver self) (solver_arguments ?self x0 times')])"
      by (simp add: call_ode_solver_def)
    with l v sr show ?thesis by blast
  qed
qed

lemma call_ode_solver_trace:
  "snd (call_ode_solver ext tr solver req) = tr \<or>
   snd (call_ode_solver ext tr solver req) = tr @ [OdeSolve solver req]"
  by (simp add: call_ode_solver_def)

lemma integrate_trace:
  "\<exists>evs. snd (snd (integrate ext self tr times')) = tr @ evs \<and>
         (\<forall>solver req. OdeSolve solver req \<in> set evs \<longrightarrow>
            solver = ode_solver self \<and> sr_times req = times' \<and>
            getitems (initial_conditions_padded_with_defaults self) (states self)
              = Inr (sr_initial_conditions req))"
proof -
  let ?P = "\<lambda>evs. \<forall>solver req. OdeSolve solver req \<in> set evs \<longrightarrow>
            solver = ode_solver self \<and> sr_times req = times' \<and>
            getitems (initial_conditions_padded_with_defaults self) (states self)
              = Inr (sr_initial_conditions req)"
  obtain x0 where g: "getitems (initial_conditions_padded_with_defaults self) (states self)
      = Inr x0" using getitems_initial_conditions_padded[of self] by blast
  have sr: "\<And>s. sr_initial_conditions (solver_arguments s x0 times') = x0"
    "\<And>s. sr_times (solver_arguments s x0 times') = times'"
    by (simp_all add: solver_arguments_def)
  show ?thesis
  proof (cases "valid_constants self \<and> valid_specifieds self \<and> valid_initial_conditions self")
    case False
    then have "snd (snd (integrate ext self tr times')) = tr"
      using check_constants_Inr[of self "()"] check_specifieds_Inr[of self "()"]
        check_initial_conditions_Inr[of self "()"]
      by (auto simp: integrate_def split: sum.splits)
    then have "snd (snd (integrate ext self tr times')) = tr @ [] \<and> ?P []" by simp
    then show ?thesis by blast
  next
    case True
    then have v: "valid_constants self" "valid_specifieds self" "valid_initial_conditions self"
      by simp_all
    show ?thesis
    proof (cases "evaluate_ode_function self = PyNone")
      case False
      let ?req = "solver_arguments self x0 times'"
      from integrate_cached[OF v False g, of ext tr times']
      have t: "snd (snd (integrate ext self tr times')) =
          snd (call_ode_solver ext tr (ode_solver self) ?req)" by simp
      from call_ode_solver_trace[of ext tr "ode_solver self" ?req] t
      have "(snd (snd (integrate ext self tr times')) = tr @ [] \<and> ?P []) \<or>
            (snd (snd (integrate ext self tr times')) = tr @ [OdeSolve (ode_solver self) ?req] \<and>
             ?P [OdeSolve (ode_solver self) ?req])"
        using g sr by auto
      then show ?thesis by blast
    next
      case n: True
      let ?c = "Codegen (codegen_arguments self ''lambdify'' [])"
      show ?thesis
      proof (cases "codegen ext tr (codegen_arguments self ''lambdify'' [])")
        case (Inl e)
        from integrate_uncached_failure[OF v n Inl, of times']
        have "snd (snd (integrate ext self tr times')) = tr @ [?c] \<and> ?P [?c]" by simp
        then show ?thesis by blast
      next
        case (Inr f)
        let ?req = "solver_arguments (self\<lparr>evaluate_ode_function_attr := f\<rparr>) x0 times'"
        from integrate_uncached[OF v n Inr g, of times']
        have t: "snd (snd (integrate ext self tr times')) =
            snd (call_ode_solver ext (tr @ [?c]) (ode_solver self) ?req)" by simp
        from call_ode_solver_trace[of ext "tr @ [?c]" "ode_solver self" ?req] t
        have "(snd (snd (integrate ext self tr times')) = tr @ [?c] \<and> ?P [?c]) \<or>
              (snd (snd (integrate ext self tr times'))
                 = tr @ [?c, OdeSolve (ode_solver self) ?req] \<and>
               ?P [?c, OdeSolve (ode_solver self) ?req])"
          using g sr by auto
        then show ?thesis by blast
      qed
    qed
  qed
qed

lemma oscillator_system_reads:
  "evaluate_ode_function oscillator_system = PyNone"
  "ode_solver oscillator_system = PyCallable 0"
  by (simp_all add: evaluate_ode_function_def ode_solver_def oscillator_system_def)

lemma getitems_oscillator_system:
  "getitems (initial_conditions_padded_with_defaults oscillator_system)
     (states oscillator_system) = Inr [PyFloat 0, PyFloat 3]"
  unfolding getitems_Inr lookup_initial_conditions_padded oscillator_system_initial_conditions
  by (simp add: dict_eval)

lemma integrate_oscillator_system:
  "integrate counting_externals oscillator_system [] (PySeq [PyFloat 0, PyFloat 1]) =
     (Inr (PyObject 1),
      oscillator_system\<lparr>evaluate_ode_function_attr := PyCallable 1\<rparr>,
      [Codegen (codegen_arguments oscillator_system ''lambdify'' []),
       OdeSolve (PyCallable 0)
         (solver_arguments (oscillator_system\<lparr>evaluate_ode_function_attr := PyCallable 1\<rparr>)
            [PyFloat 0, PyFloat 3] (PySeq [PyFloat 0, PyFloat 1]))])"
proof -
  have c: "codegen counting_externals [] (codegen_arguments oscillator_system ''lambdify'' [])
      = Inr (PyCallable 1)" by (simp add: counting_externals_def)
  from integrate_uncached[OF oscillator_system_valid oscillator_system_reads(1) c
      getitems_oscillator_system, of "PySeq [PyFloat 0, PyFloat 1]"]
  show ?thesis
    by (simp add: call_ode_solver_def oscillator_system_reads counting_externals_def)
qed

text \<open>
  C7. Every call of the solver that \<^verbatim>\<open>integrate\<close> makes passes, as initial state vector,
  the initial conditions padded with defaults read in the order of the states: the vector
  is as long as the states, and its element \<^verbatim>\<open>i\<close> is the padded value of state symbol
  \<^verbatim>\<open>i\<close> (coordinates first, then speeds). And the call is made: when the three stored
  mappings are valid, a derivative function is cached or the code generator returns one,
  and the stored solver is callable, \<^verbatim>\<open>integrate\<close> returns what the solver returns for
  these arguments.
\<close>

theorem integrate_initial_state_vector:
  "(\<exists>evs. snd (snd (integrate ext self tr times')) = tr @ evs \<and>
      (\<forall>solver req. OdeSolve solver req \<in> set evs \<longrightarrow>
          length (sr_initial_conditions req) = length (states self) \<and>
          (\<forall>i<length (states self).
              DAList.lookup (initial_conditions_padded_with_defaults self)
                (Single (states self ! i)) = Some (sr_initial_conditions req ! i)))) \<and>
   (valid_constants self \<and> valid_specifieds self \<and> valid_initial_conditions self \<and>
    (evaluate_ode_function self \<noteq> PyNone \<or>
     (\<exists>f. codegen ext tr (codegen_arguments self ''lambdify'' []) = Inr f)) \<and>
    callable (ode_solver self) \<longrightarrow>
      (\<exists>self' tr' x0.
          integrate ext self tr times' =
            (apply_callable ext tr' (ode_solver self) (solver_arguments self' x0 times'),
             self',
             tr' @ [OdeSolve (ode_solver self) (solver_arguments self' x0 times')])))"
proof -
  from integrate_trace[of ext self tr times'] obtain evs where
    e: "snd (snd (integrate ext self tr times')) = tr @ evs"
    and g: "\<forall>solver req. OdeSolve solver req \<in> set evs \<longrightarrow>
            solver = ode_solver self \<and> sr_times req = times' \<and>
            getitems (initial_conditions_padded_with_defaults self) (states self)
              = Inr (sr_initial_conditions req)"
    by blast
  have "\<forall>solver req. OdeSolve solver req \<in> set evs \<longrightarrow>
          length (sr_initial_conditions req) = length (states self) \<and>
          (\<forall>i<length (states self).
              DAList.lookup (initial_conditions_padded_with_defaults self)
                (Single (states self ! i)) = Some (sr_initial_conditions req ! i))"
    using g getitems_nth by blast
  with e have a: "\<exists>evs. snd (snd (integrate ext self tr times')) = tr @ evs \<and>
      (\<forall>solver req. OdeSolve solver req \<in> set evs \<longrightarrow>
          length (sr_initial_conditions req) = length (states self) \<and>
          (\<forall>i<length (states self).
              DAList.lookup (initial_conditions_padded_with_defaults self)
                (Single (states self ! i)) = Some (sr_initial_conditions req ! i)))"
    by blast
  have b: "valid_constants self \<and> valid_specifieds self \<and> valid_initial_conditions self \<and>
    (evaluate_ode_function self \<noteq> PyNone \<or>
     (\<exists>f. codegen ext tr (codegen_arguments self ''lambdify'' []) = Inr f)) \<and>
    callable (ode_solver self) \<longrightarrow>
      (\<exists>self' tr' x0.
          integrate ext self tr times' =
            (apply_callable ext tr' (ode_solver self) (solver_arguments self' x0 times'),
             self',
             tr' @ [OdeSolve (ode_solver self) (solver_arguments self' x0 times')]))"
  proof (intro impI)
    assume h: "valid_constants self \<and> valid_specifieds self \<and> valid_initial_conditions self \<and>
      (evaluate_ode_function self \<noteq> PyNone \<or>
       (\<exists>f. codegen ext tr (codegen_arguments self ''lambdify'' []) = Inr f)) \<and>
      callable (ode_solver self)"
    then have "\<exists>self' tr' x0.
           integrate ext self tr times' =
             (apply_callable ext tr' (ode_solver self) (solver_arguments self' x0 times'),
              self',
              tr' @ [OdeSolve (ode_solver self) (solver_arguments self' x0 times')]) \<and>
           sr_initial_conditions (solver_arguments self' x0 times') = x0 \<and>
           length x0 = length (states self) \<and>
           (\<forall>i<length (states self).
               DAList.lookup (initial_conditions_padded_with_defaults self)
                 (Single (states self ! i)) = Some (x0 ! i))"
      using integrate_calls_solver[of self ext tr times'] by blast
    then show "\<exists>self' tr' x0.
          integrate ext self tr times' =
            (apply_callable ext tr' (ode_solver self) (solver_arguments self' x0 times'),
             self',
             tr' @ [OdeSolve (ode_solver self) (solver_arguments self' x0 times')])"
      by blast
  qed
  from a b show ?thesis by blast
qed

theorem integrate_initial_state_vector_witness:
  "valid_constants oscillator_system \<and> valid_specifieds oscillator_system \<and>
   valid_initial_conditions oscillator_system \<and>
   codegen counting_externals [] (codegen_arguments oscillator_system ''lambdify'' [])
     = Inr (PyCallable 1) \<and>
   callable (ode_solver oscillator_system) \<and>
   states oscillator_system = [''x'', ''v''] \<and>
   DAList.lookup (initial_conditions_padded_with_defaults oscillator_system) (Single ''x'')
     = Some (PyFloat 0) \<and>
   DAList.lookup (initial_conditions_padded_with_defaults oscillator_system) (Single ''v'')
     = Some (PyFloat 3) \<and>
   integrate counting_externals oscillator_system [] (PySeq [PyFloat 0, PyFloat 1]) =
     (Inr (PyObject 1),
      oscillator_system\<lparr>evaluate_ode_function_attr := PyCallable 1\<rparr>,
      [Codegen (codegen_arguments oscillator_system ''lambdify'' []),
       OdeSolve (PyCallable 0)
         (solver_arguments (oscillator_system\<lparr>evaluate_ode_function_attr := PyCallable 1\<rparr>)
            [PyFloat 0, PyFloat 3] (PySeq [PyFloat 0, PyFloat 1]))]) \<and>
   OdeSolve (PyCallable 0)
         (solver_arguments (oscillator_system\<lparr>evaluate_ode_function_attr := PyCallable 1\<rparr>)
            [PyFloat 0, PyFloat 3] (PySeq [PyFloat 0, PyFloat 1]))
     \<in> set (snd (snd (integrate counting_externals oscillator_system []
                        (PySeq [PyFloat 0, PyFloat 1]))))"
proof -
  have c: "codegen counting_externals [] (codegen_arguments oscillator_system ''lambdify'' [])
     = Inr (PyCallable 1)" by (simp add: counting_externals_def)
  have s: "callable (ode_solver oscillator_system)" by (simp add: oscillator_system_reads)
  have x: "DAList.lookup (initial_conditions_padded_with_defaults oscillator_system)
      (Single ''x'') = Some (PyFloat 0)"
    "DAList.lookup (initial_conditions_padded_with_defaults oscillator_system)
      (Single ''v'') = Some (PyFloat 3)"
    unfolding lookup_initial_conditions_padded oscillator_system_initial_conditions
    by (simp_all add: dict_eval)
  from integrate_initial_state_vector[of counting_externals oscillator_system "[]"
      "PySeq [PyFloat 0, PyFloat 1]"]
  show ?thesis
    using oscillator_system_valid c s x integrate_oscillator_system
      oscillator_system_initial_conditions(2)
    by simp
qed

section \<open>Generating the derivative function\<close>



lemma codegen_arguments_cache [simp]:
  "codegen_arguments (self\<lparr>evaluate_ode_function_attr := g\<rparr>) generator kwargs =
     codegen_arguments self generator kwargs"
  by (simp add: codegen_arguments_def eom_method_def constants_symbols_def coordinates_def
      speeds_def specifieds_symbols_def)







section \<open>The time symbol at construction\<close>

lemma Kane_constant_symbols_without_time:
  assumes "Kane_constant_symbols self = Inr cs"
  shows "''t'' \<notin> set cs"
proof -
  from assms obtain d where "cs = remove1 ''t'' (list_of_dlist d)"
    by (auto simp: Kane_constant_symbols_def list_remove_def Let_def
        split: sum.splits if_splits)
  then show ?thesis by simp
qed

lemma Kane_inlist_insyms_no_auxiliary:
  assumes "uaux_attr (eom_method self) = []"
  shows "Kane_inlist_insyms self =
     Inr (forcing_full (eom_method self) @ mass_matrix_full (eom_method self),
          Dlist (q_attr (eom_method self) @ qdot_attr (eom_method self) @
                 u_attr (eom_method self) @ udot_attr (eom_method self)))"
  using assms by (simp add: Kane_inlist_insyms_def)

lemma Kane_inlist_insyms_auxiliary:
  assumes "uaux_attr (eom_method self) \<noteq> []"
  shows "Kane_inlist_insyms self = Inl (NameError ''diff'')"
  using assms by (cases "uaux_attr (eom_method self)") (simp_all add: Kane_inlist_insyms_def)

lemma init_needs_time:
  assumes "init eom cs sp solver ic = Inr self"
  shows "uaux_attr eom = [] \<and>
         ''t'' \<in> set (list_of_dlist (find_othersymbols eom
            (forcing_full eom @ mass_matrix_full eom)
            (Dlist (q_attr eom @ qdot_attr eom @ u_attr eom @ udot_attr eom)))) \<and>
         ''t'' \<notin> set (constants_symbols self)"
proof -
  let ?self0 = "\<lparr>eom_method_attr = eom, constants_symbols_attr = [],
      specifieds_symbols_attr = [], constants_attr = DAList.empty,
      specifieds_attr = DAList.empty, ode_solver_attr = PyNone,
      initial_conditions_attr = DAList.empty, evaluate_ode_function_attr = PyNone\<rparr>"
  from assms obtain ks where ks: "Kane_constant_symbols ?self0 = Inr ks"
    by (auto simp: init_def Let_def split: sum.splits)
  have e: "eom_method ?self0 = eom" by (simp add: eom_method_def)
  have u: "uaux_attr eom = []"
  proof (rule ccontr)
    assume "uaux_attr eom \<noteq> []"
    with e have "Kane_inlist_insyms ?self0 = Inl (NameError ''diff'')"
      using Kane_inlist_insyms_auxiliary[of ?self0] by simp
    with ks show False by (simp add: Kane_constant_symbols_def)
  qed
  with e have i: "Kane_inlist_insyms ?self0 =
     Inr (forcing_full eom @ mass_matrix_full eom,
          Dlist (q_attr eom @ qdot_attr eom @ u_attr eom @ udot_attr eom))"
    using Kane_inlist_insyms_no_auxiliary[of ?self0] by simp
  from ks have t: "''t'' \<in> set (list_of_dlist (find_othersymbols eom
            (forcing_full eom @ mass_matrix_full eom)
            (Dlist (q_attr eom @ qdot_attr eom @ u_attr eom @ udot_attr eom))))"
    by (auto simp: Kane_constant_symbols_def i e list_remove_def Let_def split: if_splits)
  from assms ks have "constants_symbols self = ks"
    by (auto simp: init_def Let_def constants_setter_def specifieds_setter_def
        ode_solver_setter_def initial_conditions_setter_def constants_symbols_def
        split: sum.splits if_splits)
  with Kane_constant_symbols_without_time[OF ks] u t show ?thesis by simp
qed

lemma init_without_time:
  assumes "uaux_attr eom = []"
    and "''t'' \<notin> set (list_of_dlist (find_othersymbols eom
            (forcing_full eom @ mass_matrix_full eom)
            (Dlist (q_attr eom @ qdot_attr eom @ u_attr eom @ udot_attr eom))))"
  shows "init eom cs sp solver ic = Inl (ValueError (NotInList ''t''))"
  using assms
  by (simp add: init_def Kane_constant_symbols_def Kane_inlist_insyms_def eom_method_def
      list_remove_def)

lemma init_oscillator_timeless:
  "init oscillator_timeless DAList.empty DAList.empty (PyCallable 0) DAList.empty =
     Inl (ValueError (NotInList ''t''))"
  by (rule init_without_time) (simp_all add: oscillator_timeless_def oscillator_def)

text \<open>
  C9. For a model with an auxiliary speed whose expressions hold no \<^verbatim>\<open>t\<close>, the constructor
  does not reach \<^verbatim>\<open>constants.remove(symbols('t'))\<close>: it raises the \<^verbatim>\<open>NameError\<close> of the
  unbound name \<^verbatim>\<open>diff\<close>. The lemmas above show the rest of the claim: a constant-symbol
  list that has been computed never holds \<^verbatim>\<open>t\<close>, a construction that succeeds had \<^verbatim>\<open>t\<close>
  among the non-dynamic symbols of the model, and without auxiliary speeds and without
  \<^verbatim>\<open>t\<close> the error is the one of the removal.
\<close>

theorem init_auxiliary_speeds_name_error:
  "uaux_attr oscillator_aux = [''ua''] \<and>
   ''t'' \<notin> set (list_of_dlist (find_othersymbols oscillator_aux
            (forcing_full oscillator_aux @ mass_matrix_full oscillator_aux)
            (Dlist (q_attr oscillator_aux @ qdot_attr oscillator_aux @
                    u_attr oscillator_aux @ udot_attr oscillator_aux @
                    uaux_attr oscillator_aux)))) \<and>
   init oscillator_aux DAList.empty DAList.empty (PyCallable 0) DAList.empty =
     Inl (NameError ''diff'')"
  by (simp add: init_def Kane_constant_symbols_def Kane_inlist_insyms_def eom_method_def
      oscillator_aux_def oscillator_def)

end
